theory Spec2Isabelle
  imports Complex_Main "HOL-Library.AList" "HOL-Library.Sublist"
begin

section \<open>Python values, exceptions and the log\<close>

text \<open>
  The two modules exchange dynamically typed values: posts are dictionaries, rows are
  tuples, metric values are numbers. \<open>Json v\<close> is psycopg2's \<open>Json\<close> adapter around
  a value. Clock readings (\<open>time.time()\<close>, \<open>datetime.utcnow()\<close>) are real numbers.
\<close>

datatype pyval =
    PNone
  | PBool bool
  | PInt int
  | PFloat real
  | PStr string
  | PList "pyval list"
  | PDict "(string \<times> pyval) list"
  | Json pyval

type_synonym pydict = "string \<rightharpoonup> pyval"

text \<open>Python truthiness, as used by \<open>x or y\<close>, \<open>if x\<close> and generator filters.\<close>

fun truthy :: "pyval \<Rightarrow> bool" where
  "truthy PNone = False"
| "truthy (PBool b) = b"
| "truthy (PInt i) = (i \<noteq> 0)"
| "truthy (PFloat r) = (r \<noteq> 0)"
| "truthy (PStr s) = (s \<noteq> [])"
| "truthy (PList l) = (l \<noteq> [])"
| "truthy (PDict d) = (d \<noteq> [])"
| "truthy (Json v) = True"

text \<open>
  An exception is its class name and its message (\<open>str(e)\<close>). Only subclasses of
  \<open>Exception\<close> are modelled: every handler of the source is \<open>except Exception\<close>.
  The message of a \<open>KeyError\<close> is the missing key (Python adds quotes around it).
\<close>

datatype exc = Exc (exc_class: string) (exc_str: string)

definition KeyError :: "string \<Rightarrow> exc" where
  "KeyError k = Exc ''KeyError'' k"

text \<open>\<open>d[k]\<close> on a dictionary: raises \<open>KeyError\<close> when the key is missing.\<close>

definition getitem :: "pydict \<Rightarrow> string \<Rightarrow> exc + pyval" where
  "getitem d k = (case d k of None \<Rightarrow> Inl (KeyError k) | Some v \<Rightarrow> Inr v)"

text \<open>\<open>d.get(k, default)\<close>.\<close>

definition dict_get :: "pydict \<Rightarrow> string \<Rightarrow> pyval \<Rightarrow> pyval" where
  "dict_get d k dflt = (case d k of None \<Rightarrow> dflt | Some v \<Rightarrow> v)"

text \<open>
  A log record is a level and a message; the message is kept as the pieces of the
  source's f-string (literal text and the formatted values) instead of one rendered
  string. Both modules log through Python's global logging system, so one list holds
  the records of both, in emission order.
\<close>

datatype level = INFO | WARNING | ERROR

datatype part =
    T string
  | I int
  | R real
  | V pyval
  | E exc
  | Traceback exc
  | Counts "(pyval \<times> int) list"

type_synonym log_record = "level \<times> part list"

section \<open>State of a pipeline process\<close>

subsection \<open>\<open>PipelineMetrics\<close>\<close>

text \<open>
  \<open>stage_durations[name]\<close> is a dictionary with the key \<open>start\<close> and, once the stage
  ended, \<open>end\<close> and \<open>duration\<close>. The outer dictionary is iterated when the summary is
  printed, so it is an association list in insertion order.
\<close>

record stage_timing =
  t_start :: real
  t_end :: "real option"
  t_duration :: "real option"

record error_entry =
  e_stage :: string
  e_error :: string
  e_timestamp :: real

record PipelineMetrics =
  start_time :: "real option"
  end_time :: "real option"
  posts_collected :: int
  posts_processed :: int
  posts_stored :: int
  alerts_generated :: int
  errors :: "error_entry list"
  stage_durations :: "(string \<times> stage_timing) list"

text \<open>\<open>PipelineMetrics.__init__\<close>.\<close>

definition PipelineMetrics_init :: PipelineMetrics where
  "PipelineMetrics_init =
     \<lparr>start_time = None, end_time = None, posts_collected = 0, posts_processed = 0,
      posts_stored = 0, alerts_generated = 0, errors = [], stage_durations = []\<rparr>"

text \<open>The dictionary returned by \<open>get_summary\<close> and dumped to \<open>pipeline_summary.json\<close>.\<close>

record summary =
  s_execution_time :: real
  s_start_time :: "real option"
  s_end_time :: "real option"
  s_posts_collected :: int
  s_posts_processed :: int
  s_posts_stored :: int
  s_alerts_generated :: int
  s_error_count :: nat
  s_errors :: "error_entry list"
  s_stage_durations :: "(string \<times> real) list"

subsection \<open>The store\<close>

text \<open>
  The four tables of \<open>SCHEMA_SQL\<close>. A row of \<open>raw_posts\<close>, \<open>processed_posts\<close> and
  \<open>pipeline_metrics\<close> is the tuple of the columns the \<open>INSERT\<close> statement names, in
  that order; the \<open>SERIAL id\<close> and \<open>inserted_at\<close> defaults are kept only for
  \<open>alerts\<close>, whose \<open>id\<close> is read back by \<open>insert_alert\<close>.
\<close>

record alert_row =
  a_id :: nat
  a_post_id :: pyval
  a_alert_type :: pyval
  a_severity :: pyval
  a_message :: pyval
  a_reasons :: pyval
  a_triggered_at :: real
  a_acknowledged :: bool

record tables =
  tbl_raw_posts :: "pyval list list"
  tbl_processed_posts :: "pyval list list"
  tbl_alerts :: "alert_row list"
  tbl_pipeline_metrics :: "pyval list list"

text \<open>
  A connection taken from the pool works on its own pending copy of the tables; only
  \<open>commit\<close> makes that copy the committed store, \<open>rollback\<close> (or dropping the
  connection) discards it. psycopg2 opens the transaction implicitly at the first
  statement (autocommit is off by default and the source never turns it on).
\<close>

record connection =
  pending :: tables

record world =
  db :: tables
  alerts_id_seq :: nat
  held :: nat
  db_calls :: nat
  log :: "log_record list"
  ticks :: nat
  metrics :: PipelineMetrics
  summary_file :: "summary option"

text \<open>
  \<open>db\<close> is the committed store, \<open>alerts_id_seq\<close> the sequence behind \<open>alerts.id\<close>
  (a sequence is not transactional), \<open>held\<close> the number of connections checked out of
  the pool, \<open>log\<close> the records logged so far, \<open>metrics\<close> the pipeline's
  \<open>self.metrics\<close>, and \<open>summary_file\<close> the content of \<open>pipeline_summary.json\<close>.
  Two counters are bookkeeping of the model: \<open>db_calls\<close>, the number of
  \<open>DatabaseHandler\<close> operations started so far, and \<open>ticks\<close>, the number of clock
  reads so far; they select what the surroundings answer next.
\<close>

subsection \<open>What the surroundings decide\<close>

text \<open>
  The calls of one \<open>DatabaseHandler\<close> operation into psycopg2 can each raise:
  taking a connection, opening a cursor, executing, committing and rolling back.
  \<open>None\<close> means the call succeeds.
\<close>

record faults =
  getconn_fault :: "exc option"
  cursor_fault :: "exc option"
  execute_fault :: "exc option"
  commit_fault :: "exc option"
  rollback_fault :: "exc option"

definition no_faults :: faults where
  "no_faults = \<lparr>getconn_fault = None, cursor_fault = None, execute_fault = None,
                 commit_fault = None, rollback_fault = None\<rparr>"

text \<open>
  Everything outside the two modules is a field of \<open>env\<close>:
  the clock; the faults of the n-th \<open>DatabaseHandler\<close> operation; the error, if any,
  that the store raises for a row of a table because of the row's values (a column
  type or length; the \<open>NOT NULL\<close>, uniqueness and reference constraints of
  \<open>SCHEMA_SQL\<close> are modelled with the statements below); the configuration file;
  the constructors of the collaborators; and the collaborators
  \<open>SocialMediaCollector\<close>, \<open>MLProcessor\<close> and \<open>AlertManager\<close>, whose modules the
  orchestrator imports. A \<open>SocialPost\<close> or processed post object is represented by
  the dictionary of its attributes; \<open>asdict\<close> is \<open>dataclasses.asdict\<close> on such an
  object, which returns the dictionary of its fields or raises (\<open>TypeError\<close> when the
  object is not an instance of a dataclass).

  Three things are taken to work always: emitting a log record, giving a connection
  back to the pool (\<open>putconn\<close>), and writing \<open>pipeline_summary.json\<close>.
\<close>

record env =
  clock :: "nat \<Rightarrow> real"
  fault_plan :: "nat \<Rightarrow> faults"
  row_error :: "string \<Rightarrow> pyval list \<Rightarrow> exc option"
  config_file :: "exc + (string \<rightharpoonup> pydict)"
  collector_init :: "exc option"
  ml_processor_init :: "exc option"
  pool_init :: "exc option"
  notifier_init :: "exc option"
  alert_manager_init :: "exc option"
  collect_posts :: "pyval \<Rightarrow> pyval \<Rightarrow> pyval \<Rightarrow> exc + pydict list"
  asdict :: "pydict \<Rightarrow> exc + pydict"
  process_posts :: "pydict list \<Rightarrow> exc + pydict list"
  process_alerts :: "pydict list \<Rightarrow> pyval \<Rightarrow> tables \<Rightarrow> exc option \<times> tables"

section \<open>\<open>db_handler.py\<close>\<close>

definition logger :: "level \<Rightarrow> part list \<Rightarrow> world \<Rightarrow> world" where
  "logger lv msg w = w\<lparr>log := log w @ [(lv, msg)]\<rparr>"

text \<open>
  The pool is \<open>SimpleConnectionPool(1, 20, ...)\<close>: \<open>getconn\<close> raises \<open>PoolError\<close> when
  all 20 connections are checked out.
\<close>

definition maxconn :: nat where
  "maxconn = 20"

definition get_connection :: "faults \<Rightarrow> world \<Rightarrow> (exc + connection) \<times> world" where
  "get_connection f w =
     (case getconn_fault f of
        Some e \<Rightarrow> (Inl e, w)
      | None \<Rightarrow>
          if maxconn \<le> held w
          then (Inl (Exc ''PoolError'' ''connection pool exhausted''), w)
          else (Inr \<lparr>pending = db w\<rparr>, w\<lparr>held := Suc (held w)\<rparr>))"

definition return_connection :: "world \<Rightarrow> world" where
  "return_connection w = w\<lparr>held := held w - 1\<rparr>"

definition commit :: "faults \<Rightarrow> connection \<Rightarrow> world \<Rightarrow> exc option \<times> world" where
  "commit f conn w =
     (case commit_fault f of
        Some e \<Rightarrow> (Some e, w)
      | None \<Rightarrow> (None, w\<lparr>db := pending conn\<rparr>))"

text \<open>
  The handler shared by \<open>init_schema\<close> and the three inserts, entered with a
  connection in hand:
  \<^verbatim>\<open>
  except Exception as e:
      logger.error(f"...: {str(e)}")
      if conn:
          conn.rollback()
      raise
  finally:
      if conn:
          self.return_connection(conn)
  \<close>
  The result is the exception that leaves the operation: \<open>e\<close>, or the one
  \<open>rollback\<close> raised in the handler. The \<open>finally\<close> block runs in both cases. The
  pending copy of the tables dies with the transaction either way.
\<close>

definition except_rollback_raise :: "faults \<Rightarrow> string \<Rightarrow> exc \<Rightarrow> world \<Rightarrow> exc \<times> world" where
  "except_rollback_raise f msg e w =
     (let w1 = logger ERROR [T msg, E e] w in
      case rollback_fault f of
        Some e' \<Rightarrow> (e', return_connection w1)
      | None \<Rightarrow> (e, return_connection w1))"

text \<open>The same handler when \<open>get_connection\<close> itself raised: \<open>conn\<close> is still \<open>None\<close>.\<close>

definition except_no_conn_raise :: "string \<Rightarrow> exc \<Rightarrow> world \<Rightarrow> exc \<times> world" where
  "except_no_conn_raise msg e w = (e, logger ERROR [T msg, E e] w)"

text \<open>Every operation starts by looking up its own faults and counting itself.\<close>

definition begin_call :: "env \<Rightarrow> world \<Rightarrow> faults \<times> world" where
  "begin_call env w = (fault_plan env (db_calls w), w\<lparr>db_calls := Suc (db_calls w)\<rparr>)"

subsection \<open>\<open>init_schema\<close>\<close>

text \<open>
  Every statement of \<open>SCHEMA_SQL\<close> is \<open>CREATE ... IF NOT EXISTS\<close> or
  \<open>CREATE OR REPLACE\<close>: it leaves the rows of existing tables alone.
\<close>

definition init_schema_try :: "faults \<Rightarrow> connection \<Rightarrow> world \<Rightarrow> exc option \<times> world" where
  "init_schema_try f conn w =
     (case cursor_fault f of
        Some e \<Rightarrow> (Some e, w)
      | None \<Rightarrow>
          (case execute_fault f of
             Some e \<Rightarrow> (Some e, w)
           | None \<Rightarrow>
               (case commit f conn w of
                  (Some e, w1) \<Rightarrow> (Some e, w1)
                | (None, w1) \<Rightarrow>
                    (None, logger INFO [T ''Database schema initialized successfully''] w1))))"

definition init_schema :: "env \<Rightarrow> world \<Rightarrow> exc option \<times> world" where
  "init_schema env w0 =
     (case begin_call env w0 of (f, w) \<Rightarrow>
        (case get_connection f w of
           (Inl e, w1) \<Rightarrow>
             (case except_no_conn_raise ''Error initializing schema: '' e w1 of
                (e', w2) \<Rightarrow> (Some e', w2))
         | (Inr conn, w1) \<Rightarrow>
             (case init_schema_try f conn w1 of
                (Some e, w2) \<Rightarrow>
                  (case except_rollback_raise f ''Error initializing schema: '' e w2 of
                     (e', w3) \<Rightarrow> (Some e', w3))
              | (None, w2) \<Rightarrow> (None, return_connection w2))))"

subsection \<open>Statements\<close>

text \<open>The first column of every inserted tuple is \<open>post_id\<close> (or \<open>metric_name\<close>).\<close>

fun first_column :: "pyval list \<Rightarrow> pyval" where
  "first_column [] = PNone"
| "first_column (v # vs) = v"

definition NotNullViolation :: "string \<Rightarrow> exc" where
  "NotNullViolation column = Exc ''NotNullViolation'' column"

text \<open>
  \<open>raw_posts\<close> declares \<open>post_id\<close> and \<open>platform\<close> (the first two columns of the
  inserted tuple) \<open>NOT NULL\<close>; \<open>processed_posts\<close> and \<open>alerts\<close> declare \<open>post_id\<close>
  \<open>NOT NULL\<close>; \<open>pipeline_metrics\<close> has no such column.
\<close>

fun raw_posts_not_null :: "pyval list \<Rightarrow> exc option" where
  "raw_posts_not_null (PNone # vs) = Some (NotNullViolation ''post_id'')"
| "raw_posts_not_null (v # PNone # vs) = Some (NotNullViolation ''platform'')"
| "raw_posts_not_null vs = None"

fun post_id_not_null :: "pyval list \<Rightarrow> exc option" where
  "post_id_not_null (PNone # vs) = Some (NotNullViolation ''post_id'')"
| "post_id_not_null vs = None"

text \<open>
  \<open>INSERT INTO raw_posts ... ON CONFLICT (post_id) DO NOTHING\<close> for one tuple: the
  result is the new pending tables and the statement's row count (1 inserted,
  0 skipped). The store checks the row itself before it looks for a conflict.
\<close>

definition insert_raw_stmt :: "env \<Rightarrow> pyval list \<Rightarrow> tables \<Rightarrow> exc + tables \<times> int" where
  "insert_raw_stmt env v tb =
     (case row_error env ''raw_posts'' v of
        Some e \<Rightarrow> Inl e
      | None \<Rightarrow>
          (case raw_posts_not_null v of
             Some e \<Rightarrow> Inl e
           | None \<Rightarrow>
               if first_column v \<in> first_column ` set (tbl_raw_posts tb)
               then Inr (tb, 0)
               else Inr (tb\<lparr>tbl_raw_posts := tbl_raw_posts tb @ [v]\<rparr>, 1)))"

text \<open>
  \<open>INSERT INTO processed_posts\<close> for one tuple: no conflict clause; \<open>post_id\<close>
  references \<open>raw_posts(post_id)\<close>.
\<close>

definition insert_processed_stmt :: "env \<Rightarrow> pyval list \<Rightarrow> tables \<Rightarrow> exc + tables \<times> int" where
  "insert_processed_stmt env v tb =
     (case row_error env ''processed_posts'' v of
        Some e \<Rightarrow> Inl e
      | None \<Rightarrow>
          (case post_id_not_null v of
             Some e \<Rightarrow> Inl e
           | None \<Rightarrow>
               if first_column v \<in> first_column ` set (tbl_raw_posts tb)
               then Inr (tb\<lparr>tbl_processed_posts := tbl_processed_posts tb @ [v]\<rparr>, 1)
               else Inl (Exc ''ForeignKeyViolation'' ''post_id'')))"

text \<open>
  \<open>psycopg2.extras.execute_batch(cursor, query, values)\<close> joins the statements for the
  tuples into multi-statement commands and runs them in order in the connection's
  transaction. The first statement that fails raises and ends the batch. The library
  documents that afterwards \<open>cursor.rowcount\<close> does \<^emph>\<open>not\<close> hold a total: it is the
  row count of the last statement run. A fresh cursor has \<open>rowcount = -1\<close>, and an
  empty \<open>values\<close> runs nothing.
\<close>

fun run_statements ::
    "(pyval list \<Rightarrow> tables \<Rightarrow> exc + tables \<times> int) \<Rightarrow> pyval list list \<Rightarrow> tables \<times> int
      \<Rightarrow> exc + tables \<times> int" where
  "run_statements stmt [] (tb, rowcount) = Inr (tb, rowcount)"
| "run_statements stmt (v # vs) (tb, rowcount) =
     (case stmt v tb of
        Inl e \<Rightarrow> Inl e
      | Inr (tb', n) \<Rightarrow> run_statements stmt vs (tb', n))"

definition execute_batch ::
    "faults \<Rightarrow> (pyval list \<Rightarrow> tables \<Rightarrow> exc + tables \<times> int) \<Rightarrow> pyval list list \<Rightarrow> connection
      \<Rightarrow> exc + connection \<times> int" where
  "execute_batch f stmt vals conn =
     (if vals = [] then Inr (conn, - 1)
      else
        (case execute_fault f of
           Some e \<Rightarrow> Inl e
         | None \<Rightarrow>
             (case run_statements stmt vals (pending conn, - 1) of
                Inl e \<Rightarrow> Inl e
              | Inr (tb, rowcount) \<Rightarrow> Inr (conn\<lparr>pending := tb\<rparr>, rowcount))))"

subsection \<open>\<open>insert_raw_posts\<close>\<close>

text \<open>
  A tuple display \<open>(post['post_id'], ..., Json(post['keywords_matched']), ...)\<close>:
  the items are evaluated left to right, \<open>post[k]\<close> raises \<open>KeyError\<close> for a
  missing key, and the first item that raises ends the evaluation.
\<close>

fun tuple_of :: "(exc + pyval) list \<Rightarrow> exc + pyval list" where
  "tuple_of [] = Inr []"
| "tuple_of (Inl e # items) = Inl e"
| "tuple_of (Inr v # items) =
     (case tuple_of items of Inl e \<Rightarrow> Inl e | Inr vs \<Rightarrow> Inr (v # vs))"

definition Json_of :: "exc + pyval \<Rightarrow> exc + pyval" where
  "Json_of item = (case item of Inl e \<Rightarrow> Inl e | Inr v \<Rightarrow> Inr (Json v))"

definition raw_post_values :: "pydict \<Rightarrow> exc + pyval list" where
  "raw_post_values post =
     tuple_of
       [getitem post ''post_id'',
        getitem post ''platform'',
        getitem post ''title'',
        getitem post ''content'',
        getitem post ''author'',
        getitem post ''created_utc'',
        getitem post ''url'',
        getitem post ''score'',
        getitem post ''num_comments'',
        getitem post ''subreddit'',
        Json_of (getitem post ''keywords_matched''),
        getitem post ''collected_at'']"

text \<open>The list comprehension: the first post that raises ends it.\<close>

fun comprehension :: "('a \<Rightarrow> exc + 'b) \<Rightarrow> 'a list \<Rightarrow> exc + 'b list" where
  "comprehension g [] = Inr []"
| "comprehension g (x # xs) =
     (case g x of
        Inl e \<Rightarrow> Inl e
      | Inr y \<Rightarrow> (case comprehension g xs of Inl e \<Rightarrow> Inl e | Inr ys \<Rightarrow> Inr (y # ys)))"

definition insert_raw_posts_try ::
    "env \<Rightarrow> faults \<Rightarrow> pydict list \<Rightarrow> connection \<Rightarrow> world \<Rightarrow> (exc + int) \<times> world" where
  "insert_raw_posts_try env f posts conn w =
     (case cursor_fault f of
        Some e \<Rightarrow> (Inl e, w)
      | None \<Rightarrow>
          (case comprehension raw_post_values posts of
             Inl e \<Rightarrow> (Inl e, w)
           | Inr vals \<Rightarrow>
               (case execute_batch f (insert_raw_stmt env) vals conn of
                  Inl e \<Rightarrow> (Inl e, w)
                | Inr (conn', inserted_count) \<Rightarrow>
                    (case commit f conn' w of
                       (Some e, w1) \<Rightarrow> (Inl e, w1)
                     | (None, w1) \<Rightarrow>
                         (Inr inserted_count,
                          logger INFO [T ''Inserted '', I inserted_count, T '' raw posts''] w1)))))"

definition insert_raw_posts :: "env \<Rightarrow> pydict list \<Rightarrow> world \<Rightarrow> (exc + int) \<times> world" where
  "insert_raw_posts env posts w0 =
     (case begin_call env w0 of (f, w) \<Rightarrow>
        (case get_connection f w of
           (Inl e, w1) \<Rightarrow>
             (case except_no_conn_raise ''Error inserting raw posts: '' e w1 of
                (e', w2) \<Rightarrow> (Inl e', w2))
         | (Inr conn, w1) \<Rightarrow>
             (case insert_raw_posts_try env f posts conn w1 of
                (Inl e, w2) \<Rightarrow>
                  (case except_rollback_raise f ''Error inserting raw posts: '' e w2 of
                     (e', w3) \<Rightarrow> (Inl e', w3))
              | (Inr inserted_count, w2) \<Rightarrow> (Inr inserted_count, return_connection w2))))"

subsection \<open>\<open>insert_processed_posts\<close>\<close>

definition processed_post_values :: "pyval \<Rightarrow> pydict \<Rightarrow> exc + pyval list" where
  "processed_post_values model_version post =
     tuple_of
       [getitem post ''post_id'',
        getitem post ''sentiment_label'',
        getitem post ''sentiment_score'',
        Json_of (getitem post ''topics''),
        Json_of (getitem post ''entities''),
        getitem post ''processed_at'',
        getitem post ''alert_triggered'',
        Json_of (getitem post ''alert_reasons''),
        Inr model_version]"

definition insert_processed_posts_try ::
    "env \<Rightarrow> faults \<Rightarrow> pydict list \<Rightarrow> pyval \<Rightarrow> connection \<Rightarrow> world \<Rightarrow> (exc + int) \<times> world" where
  "insert_processed_posts_try env f posts model_version conn w =
     (case cursor_fault f of
        Some e \<Rightarrow> (Inl e, w)
      | None \<Rightarrow>
          (case comprehension (processed_post_values model_version) posts of
             Inl e \<Rightarrow> (Inl e, w)
           | Inr vals \<Rightarrow>
               (case execute_batch f (insert_processed_stmt env) vals conn of
                  Inl e \<Rightarrow> (Inl e, w)
                | Inr (conn', inserted_count) \<Rightarrow>
                    (case commit f conn' w of
                       (Some e, w1) \<Rightarrow> (Inl e, w1)
                     | (None, w1) \<Rightarrow>
                         (Inr inserted_count,
                          logger INFO [T ''Inserted '', I inserted_count, T '' processed posts'']
                            w1)))))"

definition insert_processed_posts ::
    "env \<Rightarrow> pydict list \<Rightarrow> pyval \<Rightarrow> world \<Rightarrow> (exc + int) \<times> world" where
  "insert_processed_posts env posts model_version w0 =
     (case begin_call env w0 of (f, w) \<Rightarrow>
        (case get_connection f w of
           (Inl e, w1) \<Rightarrow>
             (case except_no_conn_raise ''Error inserting processed posts: '' e w1 of
                (e', w2) \<Rightarrow> (Inl e', w2))
         | (Inr conn, w1) \<Rightarrow>
             (case insert_processed_posts_try env f posts model_version conn w1 of
                (Inl e, w2) \<Rightarrow>
                  (case except_rollback_raise f ''Error inserting processed posts: '' e w2 of
                     (e', w3) \<Rightarrow> (Inl e', w3))
              | (Inr inserted_count, w2) \<Rightarrow> (Inr inserted_count, return_connection w2))))"

subsection \<open>\<open>insert_alert\<close>\<close>

text \<open>A clock read: \<open>time.time()\<close> or \<open>datetime.utcnow()\<close>.\<close>

definition time_time :: "env \<Rightarrow> world \<Rightarrow> real \<times> world" where
  "time_time env w = (clock env (ticks w), w\<lparr>ticks := Suc (ticks w)\<rparr>)"

text \<open>
  \<open>INSERT INTO alerts ... RETURNING id\<close>: the \<open>id\<close> comes from the sequence, which
  keeps its new value when the transaction is rolled back; \<open>acknowledged\<close> defaults
  to \<open>FALSE\<close>. The result is the pending tables and the fetched \<open>id\<close>.
\<close>

definition insert_alert_stmt ::
    "env \<Rightarrow> pyval \<Rightarrow> pyval \<Rightarrow> pyval \<Rightarrow> pyval \<Rightarrow> pyval \<Rightarrow> real \<Rightarrow> connection \<Rightarrow> world
      \<Rightarrow> (exc + connection \<times> nat) \<times> world" where
  "insert_alert_stmt env post_id alert_type severity message reasons triggered_at conn w =
     (case row_error env ''alerts''
             [post_id, alert_type, severity, message, reasons, PFloat triggered_at] of
        Some e \<Rightarrow> (Inl e, w)
      | None \<Rightarrow>
          (let new_id = Suc (alerts_id_seq w); w1 = w\<lparr>alerts_id_seq := new_id\<rparr> in
           case post_id_not_null [post_id] of
             Some e \<Rightarrow> (Inl e, w1)
           | None \<Rightarrow>
               (Inr (conn\<lparr>pending := (pending conn)\<lparr>tbl_alerts := tbl_alerts (pending conn) @
                       [\<lparr>a_id = new_id, a_post_id = post_id, a_alert_type = alert_type,
                         a_severity = severity, a_message = message, a_reasons = reasons,
                         a_triggered_at = triggered_at, a_acknowledged = False\<rparr>]\<rparr>\<rparr>,
                     new_id), w1)))"

definition insert_alert_try ::
    "env \<Rightarrow> faults \<Rightarrow> pyval \<Rightarrow> pyval \<Rightarrow> pyval \<Rightarrow> pyval \<Rightarrow> pyval \<Rightarrow> connection \<Rightarrow> world
      \<Rightarrow> (exc + nat) \<times> world" where
  "insert_alert_try env f post_id alert_type severity message reasons conn w =
     (case cursor_fault f of
        Some e \<Rightarrow> (Inl e, w)
      | None \<Rightarrow>
          (case time_time env w of (utcnow, w1) \<Rightarrow>
             (case execute_fault f of
                Some e \<Rightarrow> (Inl e, w1)
              | None \<Rightarrow>
                  (case insert_alert_stmt env post_id alert_type severity message (Json reasons)
                          utcnow conn w1 of
                     (Inl e, w2) \<Rightarrow> (Inl e, w2)
                   | (Inr (conn', alert_id), w2) \<Rightarrow>
                       (case commit f conn' w2 of
                          (Some e, w3) \<Rightarrow> (Inl e, w3)
                        | (None, w3) \<Rightarrow>
                            (Inr alert_id,
                             logger INFO [T ''Inserted alert '', I (int alert_id),
                                          T '' for post '', V post_id] w3))))))"

definition insert_alert ::
    "env \<Rightarrow> pyval \<Rightarrow> pyval \<Rightarrow> pyval \<Rightarrow> pyval \<Rightarrow> pyval \<Rightarrow> world \<Rightarrow> (exc + nat) \<times> world" where
  "insert_alert env post_id alert_type severity message reasons w0 =
     (case begin_call env w0 of (f, w) \<Rightarrow>
        (case get_connection f w of
           (Inl e, w1) \<Rightarrow>
             (case except_no_conn_raise ''Error inserting alert: '' e w1 of
                (e', w2) \<Rightarrow> (Inl e', w2))
         | (Inr conn, w1) \<Rightarrow>
             (case insert_alert_try env f post_id alert_type severity message reasons conn w1 of
                (Inl e, w2) \<Rightarrow>
                  (case except_rollback_raise f ''Error inserting alert: '' e w2 of
                     (e', w3) \<Rightarrow> (Inl e', w3))
              | (Inr alert_id, w2) \<Rightarrow> (Inr alert_id, return_connection w2))))"

subsection \<open>\<open>record_metric\<close>\<close>

text \<open>\<open>INSERT INTO pipeline_metrics\<close> for one tuple.\<close>

definition insert_metric_stmt :: "env \<Rightarrow> pyval list \<Rightarrow> connection \<Rightarrow> exc + connection" where
  "insert_metric_stmt env v conn =
     (case row_error env ''pipeline_metrics'' v of
        Some e \<Rightarrow> Inl e
      | None \<Rightarrow>
          Inr (conn\<lparr>pending := (pending conn)\<lparr>tbl_pipeline_metrics :=
                 tbl_pipeline_metrics (pending conn) @ [v]\<rparr>\<rparr>))"

definition record_metric_try ::
    "env \<Rightarrow> faults \<Rightarrow> pyval \<Rightarrow> pyval \<Rightarrow> pyval \<Rightarrow> connection \<Rightarrow> world \<Rightarrow> exc option \<times> world" where
  "record_metric_try env f metric_name metric_value metadata conn w =
     (case cursor_fault f of
        Some e \<Rightarrow> (Some e, w)
      | None \<Rightarrow>
          (case execute_fault f of
             Some e \<Rightarrow> (Some e, w)
           | None \<Rightarrow>
               (case insert_metric_stmt env
                       [metric_name, metric_value,
                        Json (if truthy metadata then metadata else PDict [])] conn of
                  Inl e \<Rightarrow> (Some e, w)
                | Inr conn' \<Rightarrow> commit f conn' w)))"

text \<open>
  The handler of \<open>record_metric\<close> has no \<open>raise\<close>:
  \<^verbatim>\<open>
  except Exception as e:
      logger.error(f"Error recording metric: {str(e)}")
      if conn:
          conn.rollback()
  finally:
      if conn:
          self.return_connection(conn)
  \<close>
  so the exception of the \<open>try\<close> block is dropped; an exception that \<open>rollback\<close>
  raises inside the handler is not caught by anything and leaves the operation.
\<close>

definition except_rollback_swallow ::
    "faults \<Rightarrow> string \<Rightarrow> exc \<Rightarrow> world \<Rightarrow> exc option \<times> world" where
  "except_rollback_swallow f msg e w =
     (let w1 = logger ERROR [T msg, E e] w in
      case rollback_fault f of
        Some e' \<Rightarrow> (Some e', return_connection w1)
      | None \<Rightarrow> (None, return_connection w1))"

definition record_metric :: "env \<Rightarrow> pyval \<Rightarrow> pyval \<Rightarrow> pyval \<Rightarrow> world \<Rightarrow> exc option \<times> world" where
  "record_metric env metric_name metric_value metadata w0 =
     (case begin_call env w0 of (f, w) \<Rightarrow>
        (case get_connection f w of
           (Inl e, w1) \<Rightarrow> (None, logger ERROR [T ''Error recording metric: '', E e] w1)
         | (Inr conn, w1) \<Rightarrow>
             (case record_metric_try env f metric_name metric_value metadata conn w1 of
                (Some e, w2) \<Rightarrow> except_rollback_swallow f ''Error recording metric: '' e w2
              | (None, w2) \<Rightarrow> (None, return_connection w2))))"

subsection \<open>\<open>get_unacknowledged_alerts\<close>\<close>

text \<open>
  The query joins every unacknowledged alert with the raw post of the same
  \<open>post_id\<close>, latest \<open>triggered_at\<close> first. A result row is kept as the pair of the
  alert and the raw post rather than as the dictionary zipped from the column names.
\<close>

definition unacknowledged_query :: "tables \<Rightarrow> (alert_row \<times> pyval list) list" where
  "unacknowledged_query tb =
     concat (map (\<lambda>a. map (\<lambda>r. (a, r))
                          (filter (\<lambda>r. first_column r = a_post_id a) (tbl_raw_posts tb)))
                 (rev (sort_key a_triggered_at
                         (filter (\<lambda>a. \<not> a_acknowledged a) (tbl_alerts tb)))))"

text \<open>
  The handler neither rolls back nor raises; \<open>alerts\<close> keeps its initial value
  \<open>[]\<close> when the \<open>try\<close> block raised.
\<close>

definition get_unacknowledged_alerts ::
    "env \<Rightarrow> world \<Rightarrow> (alert_row \<times> pyval list) list \<times> world" where
  "get_unacknowledged_alerts env w0 =
     (case begin_call env w0 of (f, w) \<Rightarrow>
        (case get_connection f w of
           (Inl e, w1) \<Rightarrow> ([], logger ERROR [T ''Error fetching alerts: '', E e] w1)
         | (Inr conn, w1) \<Rightarrow>
             (case (case cursor_fault f of Some e \<Rightarrow> Some e | None \<Rightarrow> execute_fault f) of
                Some e \<Rightarrow>
                  ([], return_connection (logger ERROR [T ''Error fetching alerts: '', E e] w1))
              | None \<Rightarrow> (unacknowledged_query (pending conn), return_connection w1))))"

subsection \<open>\<open>DatabaseHandler.__init__\<close>\<close>

text \<open>A new pool has no connection checked out.\<close>

definition DatabaseHandler_init :: "env \<Rightarrow> world \<Rightarrow> exc option \<times> world" where
  "DatabaseHandler_init env w =
     (case pool_init env of
        Some e \<Rightarrow> (Some e, logger ERROR [T ''Failed to initialize database: '', E e] w)
      | None \<Rightarrow>
          (case init_schema env
                  (logger INFO [T ''Database connection pool initialized''] (w\<lparr>held := 0\<rparr>)) of
             (Some e, w1) \<Rightarrow>
               (Some e, logger ERROR [T ''Failed to initialize database: '', E e] w1)
           | (None, w1) \<Rightarrow> (None, w1)))"

section \<open>\<open>main_orchestrator.py\<close>\<close>

text \<open>
  In the log messages of this module the leading line breaks and the check mark of
  the source's literals are left out, and the rules of 80 \<open>=\<close> or \<open>-\<close> are
  written \<open>====\<close> and \<open>----\<close>.
\<close>

subsection \<open>\<open>PipelineMetrics\<close>\<close>

definition start_stage :: "env \<Rightarrow> string \<Rightarrow> world \<Rightarrow> world" where
  "start_stage env stage_name w =
     (case time_time env w of (t, w1) \<Rightarrow>
        w1\<lparr>metrics := (metrics w1)\<lparr>stage_durations :=
              AList.update stage_name \<lparr>t_start = t, t_end = None, t_duration = None\<rparr>
                (stage_durations (metrics w1))\<rparr>\<rparr>)"

definition end_stage :: "env \<Rightarrow> string \<Rightarrow> world \<Rightarrow> world" where
  "end_stage env stage_name w =
     (case map_of (stage_durations (metrics w)) stage_name of
        None \<Rightarrow> w
      | Some st \<Rightarrow>
          (case time_time env w of (t, w1) \<Rightarrow>
             w1\<lparr>metrics := (metrics w1)\<lparr>stage_durations :=
                   AList.update stage_name
                     (st\<lparr>t_end := Some t, t_duration := Some (t - t_start st)\<rparr>)
                     (stage_durations (metrics w1))\<rparr>\<rparr>))"

definition add_error :: "env \<Rightarrow> string \<Rightarrow> string \<Rightarrow> world \<Rightarrow> world" where
  "add_error env stage error w =
     (case time_time env w of (t, w1) \<Rightarrow>
        w1\<lparr>metrics := (metrics w1)\<lparr>errors := errors (metrics w1) @
              [\<lparr>e_stage = stage, e_error = error, e_timestamp = t\<rparr>]\<rparr>\<rparr>)"

text \<open>
  \<open>total_duration = (end - start) if self.end_time and self.start_time else 0\<close>:
  \<open>None\<close> and \<open>0.0\<close> are both false.
\<close>

definition total_duration :: "PipelineMetrics \<Rightarrow> real" where
  "total_duration m =
     (case end_time m of
        None \<Rightarrow> 0
      | Some e \<Rightarrow>
          (case start_time m of
             None \<Rightarrow> 0
           | Some s \<Rightarrow> if e \<noteq> 0 \<and> s \<noteq> 0 then e - s else 0))"

definition get_summary :: "PipelineMetrics \<Rightarrow> summary" where
  "get_summary m =
     \<lparr>s_execution_time = total_duration m,
      s_start_time = start_time m,
      s_end_time = end_time m,
      s_posts_collected = posts_collected m,
      s_posts_processed = posts_processed m,
      s_posts_stored = posts_stored m,
      s_alerts_generated = alerts_generated m,
      s_error_count = length (errors m),
      s_errors = errors m,
      s_stage_durations =
        map (\<lambda>(k, v). (k, case t_duration v of None \<Rightarrow> 0 | Some d \<Rightarrow> d))
            (stage_durations m)\<rparr>"

subsection \<open>The stages\<close>

type_synonym config = "string \<rightharpoonup> pydict"

text \<open>\<open>self.config[section]\<close>.\<close>

definition getsection :: "config \<Rightarrow> string \<Rightarrow> exc + pydict" where
  "getsection cfg k = (case cfg k of None \<Rightarrow> Inl (KeyError k) | Some d \<Rightarrow> Inr d)"

definition stage_banner :: "string \<Rightarrow> world \<Rightarrow> world" where
  "stage_banner title w = logger INFO [T ''----''] (logger INFO [T title] w)"

text \<open>
  The \<open>try\<close> block of \<open>_collect_data\<close>. The collector is called with the keywords,
  the subreddits and the limit (the fourth argument is the constant \<open>'day'\<close>).
\<close>

definition collect_data_try :: "env \<Rightarrow> config \<Rightarrow> world \<Rightarrow> (exc + pydict list) \<times> world" where
  "collect_data_try env cfg w =
     (case getsection cfg ''monitoring'' of
        Inl e \<Rightarrow> (Inl e, w)
      | Inr monitoring \<Rightarrow>
          (case getitem monitoring ''keywords'' of
             Inl e \<Rightarrow> (Inl e, w)
           | Inr keywords \<Rightarrow>
               (case getitem monitoring ''subreddits'' of
                  Inl e \<Rightarrow> (Inl e, w)
                | Inr subreddits \<Rightarrow>
                    (let limit = dict_get monitoring ''posts_per_subreddit'' (PInt 50);
                         w1 = logger INFO [T ''Collecting posts for keywords: '', V keywords] w;
                         w2 = logger INFO [T ''From subreddits: '', V subreddits] w1 in
                     case collect_posts env keywords subreddits limit of
                       Inl e \<Rightarrow> (Inl e, w2)
                     | Inr posts \<Rightarrow>
                         (Inr posts,
                          logger INFO [T ''Collected '', I (int (length posts)), T '' posts'']
                            (w2\<lparr>metrics := (metrics w2)\<lparr>posts_collected :=
                                   int (length posts)\<rparr>\<rparr>))))))"

definition collect_data :: "env \<Rightarrow> config \<Rightarrow> world \<Rightarrow> (exc + pydict list) \<times> world" where
  "collect_data env cfg w =
     (let w1 = start_stage env ''collection'' (stage_banner ''STAGE 1: Data Collection'' w) in
      case collect_data_try env cfg w1 of
        (Inl e, w2) \<Rightarrow>
          (Inl e,
           end_stage env ''collection''
             (add_error env ''collection'' (exc_str e)
                (logger ERROR [T ''Data collection failed: '', E e] w2)))
      | (Inr posts, w2) \<Rightarrow> (Inr posts, end_stage env ''collection'' w2))"

text \<open>
  \<open>post.sentiment_label\<close> and \<open>p.alert_triggered\<close> on a processed post object:
  \<open>AttributeError\<close> when the object has no such attribute.
\<close>

definition getattr :: "pydict \<Rightarrow> string \<Rightarrow> exc + pyval" where
  "getattr obj k = (case obj k of None \<Rightarrow> Inl (Exc ''AttributeError'' k) | Some v \<Rightarrow> Inr v)"

text \<open>Lists and dictionaries cannot be dictionary keys.\<close>

fun hashable :: "pyval \<Rightarrow> bool" where
  "hashable (PList l) = False"
| "hashable (PDict d) = False"
| "hashable v = True"

text \<open>
  The loop \<open>sentiment_counts[label] = sentiment_counts.get(label, 0) + 1\<close>
  (keys are compared as values of \<open>pyval\<close>).
\<close>

fun count_labels :: "pydict list \<Rightarrow> (pyval \<times> int) list \<Rightarrow> exc + (pyval \<times> int) list" where
  "count_labels [] sentiment_counts = Inr sentiment_counts"
| "count_labels (post # posts) sentiment_counts =
     (case getattr post ''sentiment_label'' of
        Inl e \<Rightarrow> Inl e
      | Inr label \<Rightarrow>
          if hashable label
          then count_labels posts
                 (AList.update label
                    ((case map_of sentiment_counts label of None \<Rightarrow> 0 | Some c \<Rightarrow> c) + 1)
                    sentiment_counts)
          else Inl (Exc ''TypeError'' ''unhashable type''))"

text \<open>\<open>sum(1 for p in processed_posts if p.alert_triggered)\<close>.\<close>

fun count_triggered_attr :: "pydict list \<Rightarrow> exc + int" where
  "count_triggered_attr [] = Inr 0"
| "count_triggered_attr (p # ps) =
     (case getattr p ''alert_triggered'' of
        Inl e \<Rightarrow> Inl e
      | Inr v \<Rightarrow>
          (case count_triggered_attr ps of
             Inl e \<Rightarrow> Inl e
           | Inr n \<Rightarrow> Inr ((if truthy v then 1 else 0) + n)))"

text \<open>
  The \<open>try\<close> block of \<open>_process_data\<close>; its result is the list of processed post
  objects the processor returned.
\<close>

definition process_data_try :: "env \<Rightarrow> pydict list \<Rightarrow> world \<Rightarrow> (exc + pydict list) \<times> world" where
  "process_data_try env raw_posts w =
     (case comprehension (asdict env) raw_posts of
        Inl e \<Rightarrow> (Inl e, w)
      | Inr raw_posts_dict \<Rightarrow>
          (let w1 = logger INFO [T ''Running sentiment analysis, NER, and topic modeling...'']
                      w in
           case process_posts env raw_posts_dict of
             Inl e \<Rightarrow> (Inl e, w1)
           | Inr processed_posts \<Rightarrow>
               (let w2 = w1\<lparr>metrics := (metrics w1)\<lparr>posts_processed :=
                               int (length processed_posts)\<rparr>\<rparr> in
                case count_labels processed_posts [] of
                  Inl e \<Rightarrow> (Inl e, w2)
                | Inr sentiment_counts \<Rightarrow>
                    (let w3 = logger INFO [T ''Processed '', I (int (length processed_posts)),
                                           T '' posts''] w2;
                         w4 = logger INFO [T ''  Sentiment distribution: '',
                                           Counts sentiment_counts] w3 in
                     case count_triggered_attr processed_posts of
                       Inl e \<Rightarrow> (Inl e, w4)
                     | Inr n \<Rightarrow>
                         (Inr processed_posts,
                          logger INFO [T ''  Alerts triggered: '', I n] w4)))))"

text \<open>
  The \<open>try\<close> statement of \<open>_process_data\<close> with its \<open>except\<close> and \<open>finally\<close>
  clauses, up to the line before the \<open>return\<close>.
\<close>

definition process_data_guarded ::
    "env \<Rightarrow> pydict list \<Rightarrow> world \<Rightarrow> (exc + pydict list) \<times> world" where
  "process_data_guarded env raw_posts w =
     (let w1 = start_stage env ''processing'' (stage_banner ''STAGE 2: ML Processing'' w) in
      case process_data_try env raw_posts w1 of
        (Inl e, w2) \<Rightarrow>
          (Inl e,
           end_stage env ''processing''
             (add_error env ''processing'' (exc_str e)
                (logger ERROR [T ''Data processing failed: '', E e] w2)))
      | (Inr processed_posts, w2) \<Rightarrow> (Inr processed_posts, end_stage env ''processing'' w2))"

text \<open>
  \<open>_process_data\<close> ends with
  \<open>return [asdict(post) for post in processed_posts]\<close>, after the \<open>try\<close> statement:
  an exception of this conversion leaves the method without passing through the
  handler of the stage.
\<close>

definition process_data :: "env \<Rightarrow> pydict list \<Rightarrow> world \<Rightarrow> (exc + pydict list) \<times> world" where
  "process_data env raw_posts w =
     (case process_data_guarded env raw_posts w of
        (Inl e, w1) \<Rightarrow> (Inl e, w1)
      | (Inr processed_posts, w1) \<Rightarrow>
          (case comprehension (asdict env) processed_posts of
             Inl e \<Rightarrow> (Inl e, w1)
           | Inr processed_dicts \<Rightarrow> (Inr processed_dicts, w1)))"

definition store_data_try ::
    "env \<Rightarrow> config \<Rightarrow> pydict list \<Rightarrow> pydict list \<Rightarrow> world \<Rightarrow> exc option \<times> world" where
  "store_data_try env cfg raw_posts processed_posts w =
     (case comprehension (asdict env) raw_posts of
        Inl e \<Rightarrow> (Some e, w)
      | Inr raw_posts_dict \<Rightarrow>
          (case insert_raw_posts env raw_posts_dict w of
             (Inl e, w1) \<Rightarrow> (Some e, w1)
           | (Inr raw_count, w1) \<Rightarrow>
               (let w2 = logger INFO [T ''Stored '', I raw_count, T '' raw posts''] w1 in
                case getsection cfg ''ml'' of
                  Inl e \<Rightarrow> (Some e, w2)
                | Inr ml \<Rightarrow>
                    (case insert_processed_posts env processed_posts
                            (dict_get ml ''model_version'' (PStr ''v1.0'')) w2 of
                       (Inl e, w3) \<Rightarrow> (Some e, w3)
                     | (Inr processed_count, w3) \<Rightarrow>
                         (let w4 = logger INFO [T ''Stored '', I processed_count,
                                                T '' processed posts''] w3 in
                          (None,
                           w4\<lparr>metrics := (metrics w4)\<lparr>posts_stored := raw_count\<rparr>\<rparr>))))))"

definition store_data ::
    "env \<Rightarrow> config \<Rightarrow> pydict list \<Rightarrow> pydict list \<Rightarrow> world \<Rightarrow> exc option \<times> world" where
  "store_data env cfg raw_posts processed_posts w =
     (let w1 = start_stage env ''storage'' (stage_banner ''STAGE 3: Data Storage'' w) in
      case store_data_try env cfg raw_posts processed_posts w1 of
        (Some e, w2) \<Rightarrow>
          (Some e,
           end_stage env ''storage''
             (add_error env ''storage'' (exc_str e)
                (logger ERROR [T ''Data storage failed: '', E e] w2)))
      | (None, w2) \<Rightarrow> (None, end_stage env ''storage'' w2))"

text \<open>
  \<open>sum(1 for p in processed_posts if p.get('alert_triggered', False))\<close> on the
  dictionaries.
\<close>

definition count_triggered :: "pydict list \<Rightarrow> int" where
  "count_triggered posts =
     int (length (filter (\<lambda>p. truthy (dict_get p ''alert_triggered'' (PBool False))) posts))"

text \<open>
  The \<open>try\<close> block of \<open>_generate_alerts\<close>. \<open>AlertManager.process_alerts\<close> works on
  the store through the handler it was built with; whatever it leaves there stays,
  also when it raises.
\<close>

definition generate_alerts_try ::
    "env \<Rightarrow> config \<Rightarrow> pydict list \<Rightarrow> world \<Rightarrow> exc option \<times> world" where
  "generate_alerts_try env cfg processed_posts w =
     (case getsection cfg ''alerts'' of
        Inl e \<Rightarrow> (Some e, w)
      | Inr alerts_cfg \<Rightarrow>
          (let email_recipients = dict_get alerts_cfg ''email_recipients'' (PList []) in
           case process_alerts env processed_posts email_recipients (db w) of
             (Some e, tb) \<Rightarrow> (Some e, w\<lparr>db := tb\<rparr>)
           | (None, tb) \<Rightarrow>
               (let alert_count = count_triggered processed_posts;
                    w1 = w\<lparr>db := tb\<rparr>;
                    w2 = w1\<lparr>metrics := (metrics w1)\<lparr>alerts_generated := alert_count\<rparr>\<rparr> in
                (None, logger INFO [T ''Generated and sent '', I alert_count, T '' alerts'']
                         w2))))"

text \<open>
  The handler of \<open>_generate_alerts\<close> does not raise, so the method returns.
  \<open>generate_alerts_caught\<close> also tells which exception, if any, the handler caught.
\<close>

definition generate_alerts_caught ::
    "env \<Rightarrow> config \<Rightarrow> pydict list \<Rightarrow> world \<Rightarrow> exc option \<times> world" where
  "generate_alerts_caught env cfg processed_posts w =
     (let w1 = start_stage env ''alerts'' (stage_banner ''STAGE 4: Alert Generation'' w) in
      case generate_alerts_try env cfg processed_posts w1 of
        (Some e, w2) \<Rightarrow>
          (Some e,
           end_stage env ''alerts''
             (add_error env ''alerts'' (exc_str e)
                (logger ERROR [T ''Alert generation failed: '', E e] w2)))
      | (None, w2) \<Rightarrow> (None, end_stage env ''alerts'' w2))"

definition generate_alerts :: "env \<Rightarrow> config \<Rightarrow> pydict list \<Rightarrow> world \<Rightarrow> world" where
  "generate_alerts env cfg processed_posts w =
     snd (generate_alerts_caught env cfg processed_posts w)"

text \<open>
  The five \<open>record_metric\<close> calls of \<open>_record_metrics\<close>, in order; the first one that
  raises ends the \<open>try\<close> block.
\<close>

fun record_all :: "env \<Rightarrow> (string \<times> pyval) list \<Rightarrow> world \<Rightarrow> exc option \<times> world" where
  "record_all env [] w = (None, w)"
| "record_all env ((name, val) # rest) w =
     (case record_metric env (PStr name) val PNone w of
        (Some e, w1) \<Rightarrow> (Some e, w1)
      | (None, w1) \<Rightarrow> record_all env rest w1)"

definition record_metrics_try :: "env \<Rightarrow> world \<Rightarrow> exc option \<times> world" where
  "record_metrics_try env w =
     (let summary = get_summary (metrics w) in
      case record_all env
             [(''posts_collected'', PInt (s_posts_collected summary)),
              (''posts_processed'', PInt (s_posts_processed summary)),
              (''alerts_generated'', PInt (s_alerts_generated summary)),
              (''execution_time'', PFloat (s_execution_time summary)),
              (''error_count'', PInt (int (s_error_count summary)))] w of
        (Some e, w1) \<Rightarrow> (Some e, w1)
      | (None, w1) \<Rightarrow> (None, logger INFO [T ''Metrics recorded to database''] w1))"

definition record_metrics :: "env \<Rightarrow> world \<Rightarrow> world" where
  "record_metrics env w =
     (case record_metrics_try env (stage_banner ''STAGE 5: Recording Metrics'' w) of
        (Some e, w1) \<Rightarrow> logger ERROR [T ''Failed to record metrics: '', E e] w1
      | (None, w1) \<Rightarrow> w1)"

subsection \<open>\<open>_print_summary\<close>\<close>

text \<open>
  The summary is logged line by line and then dumped to \<open>pipeline_summary.json\<close>,
  which is opened for writing, so that an earlier summary is replaced.
\<close>

definition summary_lines :: "summary \<Rightarrow> log_record list" where
  "summary_lines summary =
     [(INFO, [T ''===='']),
      (INFO, [T ''PIPELINE EXECUTION SUMMARY'']),
      (INFO, [T ''===='']),
      (INFO, [T ''Total Execution Time: '', R (s_execution_time summary), T '' seconds'']),
      (INFO, [T ''Posts Collected: '', I (s_posts_collected summary)]),
      (INFO, [T ''Posts Processed: '', I (s_posts_processed summary)]),
      (INFO, [T ''Posts Stored: '', I (s_posts_stored summary)]),
      (INFO, [T ''Alerts Generated: '', I (s_alerts_generated summary)]),
      (INFO, [T ''Errors: '', I (int (s_error_count summary))]),
      (INFO, [T ''Stage Durations:''])]
     @ map (\<lambda>(stage, duration). (INFO, [T ''  '', T stage, T '': '', R duration, T ''s'']))
           (s_stage_durations summary)
     @ (if s_errors summary \<noteq> []
        then (INFO, [T ''Errors:'']) #
             map (\<lambda>error. (INFO, [T ''  ['', T (e_stage error), T ''] '', T (e_error error)]))
                 (s_errors summary)
        else [])
     @ [(INFO, [T ''====''])]"

definition print_summary :: "world \<Rightarrow> world" where
  "print_summary w =
     (let summary = get_summary (metrics w) in
      w\<lparr>log := log w @ summary_lines summary, summary_file := Some summary\<rparr>)"

subsection \<open>\<open>run\<close>\<close>

text \<open>The \<open>try\<close> block of \<open>run\<close>: \<open>None\<close> when it ends or returns, the exception when a stage raises.\<close>

definition run_try :: "env \<Rightarrow> config \<Rightarrow> world \<Rightarrow> exc option \<times> world" where
  "run_try env cfg w =
     (case collect_data env cfg w of
        (Inl e, w1) \<Rightarrow> (Some e, w1)
      | (Inr raw_posts, w1) \<Rightarrow>
          if raw_posts = []
          then (None, logger WARNING [T ''No posts collected, exiting pipeline''] w1)
          else
            (case process_data env raw_posts w1 of
               (Inl e, w2) \<Rightarrow> (Some e, w2)
             | (Inr processed_posts, w2) \<Rightarrow>
                 if processed_posts = []
                 then (None, logger WARNING [T ''No posts processed, exiting pipeline''] w2)
                 else
                   (case store_data env cfg raw_posts processed_posts w2 of
                      (Some e, w3) \<Rightarrow> (Some e, w3)
                    | (None, w3) \<Rightarrow>
                        (let w4 = generate_alerts env cfg processed_posts w3;
                             w5 = record_metrics env w4 in
                         (None,
                          logger INFO [T ''===='']
                            (logger INFO [T ''PIPELINE COMPLETED SUCCESSFULLY'']
                               (logger INFO [T ''====''] w5)))))))"

text \<open>The \<open>except\<close> clause of \<open>run\<close>, which re-raises.\<close>

definition run_except :: "env \<Rightarrow> exc \<Rightarrow> world \<Rightarrow> world" where
  "run_except env e w =
     add_error env ''pipeline'' (exc_str e)
       (logger ERROR [Traceback e]
          (logger ERROR [T ''Pipeline execution failed: '', E e] w))"

text \<open>The \<open>finally\<close> clause of \<open>run\<close>.\<close>

definition run_finally :: "env \<Rightarrow> world \<Rightarrow> world" where
  "run_finally env w =
     (case time_time env w of (t, w1) \<Rightarrow>
        print_summary (w1\<lparr>metrics := (metrics w1)\<lparr>end_time := Some t\<rparr>\<rparr>))"

definition run_start :: "env \<Rightarrow> world \<Rightarrow> world" where
  "run_start env w =
     (case time_time env
             (logger INFO [T ''===='']
                (logger INFO [T ''STARTING SOCIAL MEDIA MONITORING PIPELINE'']
                   (logger INFO [T ''====''] w))) of
        (t, w1) \<Rightarrow> w1\<lparr>metrics := (metrics w1)\<lparr>start_time := Some t\<rparr>\<rparr>)"

text \<open>\<open>run\<close> returns \<open>None\<close> when it returns normally and the exception when it raises.\<close>

definition run :: "env \<Rightarrow> config \<Rightarrow> world \<Rightarrow> exc option \<times> world" where
  "run env cfg w =
     (case run_try env cfg (run_start env w) of
        (Some e, w1) \<Rightarrow> (Some e, run_finally env (run_except env e w1))
      | (None, w1) \<Rightarrow> (None, run_finally env w1))"

subsection \<open>\<open>SocialMonitoringPipeline.__init__\<close>, \<open>load_config\<close> and \<open>main\<close>\<close>

text \<open>The first of a sequence of steps that raises, if any.\<close>

fun first_error :: "exc option list \<Rightarrow> exc option" where
  "first_error [] = None"
| "first_error (Some e # steps) = Some e"
| "first_error (None # steps) = first_error steps"

definition raised :: "exc + 'a \<Rightarrow> exc option" where
  "raised r = (case r of Inl e \<Rightarrow> Some e | Inr v \<Rightarrow> None)"

text \<open>\<open>config[section][key]\<close>.\<close>

definition config_item :: "config \<Rightarrow> string \<Rightarrow> string \<Rightarrow> exc + pyval" where
  "config_item cfg section k =
     (case getsection cfg section of Inl e \<Rightarrow> Inl e | Inr d \<Rightarrow> getitem d k)"

text \<open>The components built before and after the \<open>DatabaseHandler\<close>.\<close>

definition init_before_db :: "env \<Rightarrow> config \<Rightarrow> exc option" where
  "init_before_db env cfg =
     first_error
       [raised (config_item cfg ''reddit'' ''client_id''),
        raised (config_item cfg ''reddit'' ''client_secret''),
        raised (config_item cfg ''reddit'' ''user_agent''),
        collector_init env,
        raised (config_item cfg ''ml'' ''sentiment_model''),
        ml_processor_init env,
        raised (config_item cfg ''database'' ''host''),
        raised (config_item cfg ''database'' ''database''),
        raised (config_item cfg ''database'' ''user''),
        raised (config_item cfg ''database'' ''password''),
        raised (config_item cfg ''database'' ''port'')]"

definition init_after_db :: "env \<Rightarrow> config \<Rightarrow> exc option" where
  "init_after_db env cfg =
     first_error
       [raised (getsection cfg ''alerts''),
        notifier_init env,
        alert_manager_init env]"

definition pipeline_init_try :: "env \<Rightarrow> config \<Rightarrow> world \<Rightarrow> exc option \<times> world" where
  "pipeline_init_try env cfg w =
     (case init_before_db env cfg of
        Some e \<Rightarrow> (Some e, w)
      | None \<Rightarrow>
          (case DatabaseHandler_init env w of
             (Some e, w1) \<Rightarrow> (Some e, w1)
           | (None, w1) \<Rightarrow>
               (case init_after_db env cfg of
                  Some e \<Rightarrow> (Some e, w1)
                | None \<Rightarrow>
                    (None, logger INFO [T ''Pipeline components initialized successfully'']
                             w1))))"

definition pipeline_init :: "env \<Rightarrow> config \<Rightarrow> world \<Rightarrow> exc option \<times> world" where
  "pipeline_init env cfg w =
     (case pipeline_init_try env cfg (w\<lparr>metrics := PipelineMetrics_init\<rparr>) of
        (Some e, w1) \<Rightarrow> (Some e, logger ERROR [T ''Failed to initialize pipeline: '', E e] w1)
      | (None, w1) \<Rightarrow> (None, w1))"

definition load_config :: "env \<Rightarrow> world \<Rightarrow> (exc + config) \<times> world" where
  "load_config env w =
     (case config_file env of
        Inl e \<Rightarrow> (Inl e, logger ERROR [T ''Failed to load config: '', E e] w)
      | Inr cfg \<Rightarrow> (Inr cfg, logger INFO [T ''Configuration loaded from config.json''] w))"

text \<open>The handler of \<open>main\<close>, which turns every exception into the exit code 1.\<close>

definition main_except :: "exc \<Rightarrow> world \<Rightarrow> int \<times> world" where
  "main_except e w =
     (1, logger ERROR [Traceback e] (logger ERROR [T ''Pipeline failed: '', E e] w))"

definition main :: "env \<Rightarrow> world \<Rightarrow> int \<times> world" where
  "main env w =
     (case load_config env w of
        (Inl e, w1) \<Rightarrow> main_except e w1
      | (Inr cfg, w1) \<Rightarrow>
          (case pipeline_init env cfg w1 of
             (Some e, w2) \<Rightarrow> main_except e w2
           | (None, w2) \<Rightarrow>
               (case run env cfg w2 of
                  (Some e, w3) \<Rightarrow> main_except e w3
                | (None, w3) \<Rightarrow> (0, w3))))"

section \<open>Observations on a state\<close>

text \<open>The stage and message of every recorded error, in order.\<close>

definition error_log :: "world \<Rightarrow> (string \<times> string) list" where
  "error_log w = map (\<lambda>x. (e_stage x, e_error x)) (errors (metrics w))"

text \<open>The names \<open>start_stage\<close> was called with, in order of their first call.\<close>

definition stages_started :: "world \<Rightarrow> string list" where
  "stages_started w = map fst (stage_durations (metrics w))"

text \<open>The \<open>post_id\<close> column of the committed \<open>raw_posts\<close> table.\<close>

definition stored_post_ids :: "world \<Rightarrow> pyval list" where
  "stored_post_ids w = map first_column (tbl_raw_posts (db w))"

text \<open>The exception class the specification names for storage failures.\<close>

definition raises_StorageError :: "exc + 'a \<Rightarrow> bool" where
  "raises_StorageError r = (case r of Inl e \<Rightarrow> exc_class e = ''StorageError'' | Inr v \<Rightarrow> False)"

text \<open>
  How the \<open>try\<close> block of \<open>run\<close> ends, read off the stages in the order \<open>run\<close>
  calls them: a stage raises, or \<open>run\<close> returns early on an empty list, or the
  storage stage succeeds and the rest is run; \<open>Completed a\<close> carries the exception
  the alerting stage caught, if any. The processing stage can raise in two places:
  inside its \<open>try\<close> statement (\<open>ProcessingFailed\<close>), or after it, in the conversion
  of the processed posts that it returns (\<open>ConversionFailed\<close>).
\<close>

datatype outcome =
    CollectionFailed exc
  | NoPostsCollected
  | ProcessingFailed exc
  | ConversionFailed exc
  | NoPostsProcessed
  | StorageFailed exc
  | Completed "exc option"

definition run_outcome :: "env \<Rightarrow> config \<Rightarrow> world \<Rightarrow> outcome" where
  "run_outcome env cfg w =
     (case collect_data env cfg (run_start env w) of
        (Inl e, w1) \<Rightarrow> CollectionFailed e
      | (Inr raw_posts, w1) \<Rightarrow>
          if raw_posts = [] then NoPostsCollected
          else
            (case process_data_guarded env raw_posts w1 of
               (Inl e, w2) \<Rightarrow> ProcessingFailed e
             | (Inr processed_objects, w2) \<Rightarrow>
                 (case comprehension (asdict env) processed_objects of
                    Inl e \<Rightarrow> ConversionFailed e
                  | Inr processed_posts \<Rightarrow>
                      if processed_posts = [] then NoPostsProcessed
                      else
                        (case store_data env cfg raw_posts processed_posts w2 of
                           (Some e, w3) \<Rightarrow> StorageFailed e
                         | (None, w3) \<Rightarrow>
                             Completed
                               (fst (generate_alerts_caught env cfg processed_posts w3))))))"

text \<open>The fatal stage that raised, with its exception.\<close>

fun fatal_stage :: "outcome \<Rightarrow> (string \<times> exc) option" where
  "fatal_stage (CollectionFailed e) = Some (''collection'', e)"
| "fatal_stage (ProcessingFailed e) = Some (''processing'', e)"
| "fatal_stage (ConversionFailed e) = Some (''processing'', e)"
| "fatal_stage (StorageFailed e) = Some (''storage'', e)"
| "fatal_stage NoPostsCollected = None"
| "fatal_stage NoPostsProcessed = None"
| "fatal_stage (Completed a) = None"

text \<open>The fatal stage whose own handler caught the exception, with the exception.\<close>

fun handled_stage :: "outcome \<Rightarrow> (string \<times> exc) option" where
  "handled_stage (CollectionFailed e) = Some (''collection'', e)"
| "handled_stage (ProcessingFailed e) = Some (''processing'', e)"
| "handled_stage (StorageFailed e) = Some (''storage'', e)"
| "handled_stage (ConversionFailed e) = None"
| "handled_stage NoPostsCollected = None"
| "handled_stage NoPostsProcessed = None"
| "handled_stage (Completed a) = None"

text \<open>
  The configuration and the state with which \<open>main\<close> calls \<open>run\<close>, when the
  configuration loads and the pipeline object is built; \<open>None\<close> when \<open>main\<close> fails
  before it has a pipeline to run.
\<close>

definition started :: "env \<Rightarrow> world \<Rightarrow> (config \<times> world) option" where
  "started env w0 =
     (case load_config env w0 of
        (Inl e, wa) \<Rightarrow> None
      | (Inr cfg, wa) \<Rightarrow>
          (case pipeline_init env cfg wa of
             (Some e, w) \<Rightarrow> None
           | (None, w) \<Rightarrow> Some (cfg, w)))"

section \<open>Example surroundings\<close>

definition example_post :: "pyval \<Rightarrow> pyval \<Rightarrow> pydict" where
  "example_post post_id platform =
     map_of [(''post_id'', post_id), (''platform'', platform), (''title'', PStr ''title''),
             (''content'', PStr ''content''), (''author'', PStr ''author''),
             (''created_utc'', PInt 1700000000), (''url'', PStr ''url''), (''score'', PInt 5),
             (''num_comments'', PInt 2), (''subreddit'', PStr ''news''),
             (''keywords_matched'', PList [PStr ''outage'']),
             (''collected_at'', PStr ''2024-01-01T00:00:00'')]"

definition example_processed :: "pyval \<Rightarrow> bool \<Rightarrow> pydict" where
  "example_processed post_id triggered =
     map_of [(''post_id'', post_id), (''sentiment_label'', PStr ''negative''),
             (''sentiment_score'', PFloat (1 / 2)), (''topics'', PList []),
             (''entities'', PList []), (''processed_at'', PStr ''2024-01-01T00:00:01''),
             (''alert_triggered'', PBool triggered), (''alert_reasons'', PList [])]"

definition example_config :: config where
  "example_config =
     map_of [(''reddit'', map_of [(''client_id'', PStr ''id''), (''client_secret'', PStr ''secret''),
                                  (''user_agent'', PStr ''agent'')]),
             (''ml'', map_of [(''sentiment_model'', PStr ''model'')]),
             (''database'', map_of [(''host'', PStr ''localhost''), (''database'', PStr ''db''),
                                    (''user'', PStr ''postgres''), (''password'', PStr ''pw''),
                                    (''port'', PInt 5432)]),
             (''alerts'', map_of []),
             (''monitoring'', map_of [(''keywords'', PList [PStr ''outage'']),
                                      (''subreddits'', PList [PStr ''news''])])]"

text \<open>
  Surroundings in which nothing fails: the collector finds one post, the processor
  returns one processed post for it, every object is an instance of a dataclass, and
  the alert manager leaves the store alone.
\<close>

definition quiet_env :: env where
  "quiet_env =
     \<lparr>clock = (\<lambda>n. 1000 + real n),
      fault_plan = (\<lambda>n. no_faults),
      row_error = (\<lambda>table v. None),
      config_file = Inr example_config,
      collector_init = None, ml_processor_init = None, pool_init = None,
      notifier_init = None, alert_manager_init = None,
      collect_posts = (\<lambda>keywords subreddits limit. Inr [example_post (PStr ''a1'') (PStr ''reddit'')]),
      asdict = (\<lambda>obj. Inr obj),
      process_posts = (\<lambda>posts. Inr [example_processed (PStr ''a1'') True]),
      process_alerts = (\<lambda>posts recipients tb. (None, tb))\<rparr>"

text \<open>A process that has not started: empty store, empty log, no summary file.\<close>

definition empty_world :: world where
  "empty_world =
     \<lparr>db = \<lparr>tbl_raw_posts = [], tbl_processed_posts = [], tbl_alerts = [],
             tbl_pipeline_metrics = []\<rparr>,
      alerts_id_seq = 0, held = 0, db_calls = 0, log = [], ticks = 0,
      metrics = PipelineMetrics_init, summary_file = None\<rparr>"

text \<open>
  The server drops the connection while a statement runs: \<open>execute\<close> raises
  \<open>OperationalError\<close>, and \<open>rollback\<close> on the closed connection raises
  \<open>InterfaceError\<close>.
\<close>

definition connection_lost :: faults where
  "connection_lost =
     no_faults\<lparr>execute_fault := Some (Exc ''OperationalError'' ''server closed the connection''),
               rollback_fault := Some (Exc ''InterfaceError'' ''connection already closed'')\<rparr>"

text \<open>The state in which \<open>main\<close> calls \<open>run\<close> when it starts from \<open>empty_world\<close>.\<close>

definition started_world :: world where
  "started_world =
     \<lparr>db = \<lparr>tbl_raw_posts = [], tbl_processed_posts = [], tbl_alerts = [],
             tbl_pipeline_metrics = []\<rparr>,
      alerts_id_seq = 0, held = 0, db_calls = 1,
      log = [(INFO, [T ''Configuration loaded from config.json'']),
             (INFO, [T ''Database connection pool initialized'']),
             (INFO, [T ''Database schema initialized successfully'']),
             (INFO, [T ''Pipeline components initialized successfully''])],
      ticks = 0, metrics = PipelineMetrics_init, summary_file = None\<rparr>"

text \<open>
  Variations of \<open>quiet_env\<close>: the collector finds nothing; the collector raises; the
  collector returns a post without platform, which the store rejects; the alert
  manager raises.
\<close>

definition no_posts_env :: env where
  "no_posts_env = quiet_env\<lparr>collect_posts := (\<lambda>keywords subreddits limit. Inr [])\<rparr>"

definition collector_down_env :: env where
  "collector_down_env =
     quiet_env\<lparr>collect_posts :=
       (\<lambda>keywords subreddits limit. Inl (Exc ''ConnectionError'' ''reddit unreachable''))\<rparr>"

definition bad_post_env :: env where
  "bad_post_env =
     quiet_env\<lparr>collect_posts :=
       (\<lambda>keywords subreddits limit. Inr [example_post (PStr ''a1'') PNone])\<rparr>"

definition alerts_down_env :: env where
  "alerts_down_env =
     quiet_env\<lparr>process_alerts :=
       (\<lambda>posts recipients tb. (Some (Exc ''SMTPException'' ''smtp unreachable''), tb))\<rparr>"

text \<open>
  The processor returns objects that have the attributes \<open>sentiment_label\<close> and
  \<open>alert_triggered\<close> but are not instances of a dataclass: \<open>asdict\<close> raises
  \<open>TypeError\<close> for them, and works for the collected posts.
\<close>

definition plain_objects_env :: env where
  "plain_objects_env =
     quiet_env\<lparr>asdict :=
       (\<lambda>obj. case obj ''sentiment_label'' of
                 None \<Rightarrow> Inr obj
               | Some v \<Rightarrow> Inl (Exc ''TypeError'' ''asdict() should be called on dataclass instances''))\<rparr>"

section \<open>The persistence layer: connections\<close>

lemmas db_op_defs =
  begin_call_def get_connection_def commit_def except_no_conn_raise_def
  except_rollback_raise_def except_rollback_swallow_def return_connection_def logger_def

lemma held_init_schema: "held (snd (init_schema env w)) = held w"
  by (auto simp: init_schema_def init_schema_try_def db_op_defs Let_def
      split: option.splits if_splits prod.splits sum.splits)

lemma held_insert_raw_posts: "held (snd (insert_raw_posts env posts w)) = held w"
  by (auto simp: insert_raw_posts_def insert_raw_posts_try_def db_op_defs Let_def
      split: option.splits if_splits prod.splits sum.splits)

lemma held_insert_processed_posts:
  "held (snd (insert_processed_posts env posts model_version w)) = held w"
  by (auto simp: insert_processed_posts_def insert_processed_posts_try_def db_op_defs Let_def
      split: option.splits if_splits prod.splits sum.splits)

lemma held_insert_alert:
  "held (snd (insert_alert env post_id alert_type severity message reasons w)) = held w"
  by (auto simp: insert_alert_def insert_alert_try_def insert_alert_stmt_def time_time_def
      db_op_defs Let_def split: option.splits if_splits prod.splits sum.splits)

lemma held_record_metric:
  "held (snd (record_metric env metric_name metric_value metadata w)) = held w"
  by (auto simp: record_metric_def record_metric_try_def db_op_defs Let_def
      split: option.splits if_splits prod.splits sum.splits)

lemma held_get_unacknowledged_alerts: "held (snd (get_unacknowledged_alerts env w)) = held w"
  by (auto simp: get_unacknowledged_alerts_def db_op_defs
      split: option.splits if_splits prod.splits sum.splits)

text \<open>
  C7. Every operation of \<open>DatabaseHandler\<close> that takes a connection from the pool
  gives it back on every exit path, whether it returns or raises, and whichever of
  its calls into the driver fails: after the call the pool has as many connections
  checked out as before it.
\<close>

theorem connections_released_on_every_exit:
  "held (snd (init_schema env w)) = held w
   \<and> held (snd (insert_raw_posts env posts w)) = held w
   \<and> held (snd (insert_processed_posts env posts model_version w)) = held w
   \<and> held (snd (insert_alert env post_id alert_type severity message reasons w)) = held w
   \<and> held (snd (record_metric env metric_name metric_value metadata w)) = held w
   \<and> held (snd (get_unacknowledged_alerts env w)) = held w"
  by (simp add: held_init_schema held_insert_raw_posts held_insert_processed_posts
      held_insert_alert held_record_metric held_get_unacknowledged_alerts)

section \<open>The persistence layer: \<open>record_metric\<close>\<close>

text \<open>
  \<open>record_metric\<close> drops every exception of its \<open>try\<close> block. What can still leave it
  is the exception of the \<open>rollback\<close> in its handler.
\<close>

lemma record_metric_raises_only_from_rollback:
  "fst (record_metric env metric_name metric_value metadata w) = Some e
   \<Longrightarrow> rollback_fault (fault_plan env (db_calls w)) = Some e"
  by (auto simp: record_metric_def record_metric_try_def db_op_defs Let_def
      split: option.splits if_splits prod.splits sum.splits)

lemma record_metric_swallows:
  "rollback_fault (fault_plan env (db_calls w)) = None
   \<Longrightarrow> fst (record_metric env metric_name metric_value metadata w) = None"
  using record_metric_raises_only_from_rollback [of env metric_name metric_value metadata w]
  by (cases "fst (record_metric env metric_name metric_value metadata w)") auto

text \<open>
  C8. The claim is that no call of \<open>record_metric\<close> ever raises. When the connection
  is lost while the statement runs, the \<open>INSERT\<close> raises, and so does the
  \<open>rollback\<close> in the handler: that second exception reaches the caller.
\<close>

theorem record_metric_propagates_rollback_failure:
  "fst (record_metric (quiet_env\<lparr>fault_plan := (\<lambda>n. connection_lost)\<rparr>)
          (PStr ''posts_collected'') (PInt 1) PNone empty_world)
   = Some (Exc ''InterfaceError'' ''connection already closed'')"
  by (simp add: record_metric_def record_metric_try_def db_op_defs quiet_env_def
      empty_world_def connection_lost_def no_faults_def maxconn_def)

section \<open>The persistence layer: \<open>insert_raw_posts\<close>\<close>

subsection \<open>Conflicts are skipped\<close>

lemma insert_raw_stmt_ids:
  assumes "insert_raw_stmt env v tb = Inr (tb', n)"
  shows "set (map first_column (tbl_raw_posts tb')) =
           insert (first_column v) (set (map first_column (tbl_raw_posts tb)))"
    and "distinct (map first_column (tbl_raw_posts tb))
         \<Longrightarrow> distinct (map first_column (tbl_raw_posts tb'))"
    and "prefix (tbl_raw_posts tb) (tbl_raw_posts tb')"
    and "n = int (length (tbl_raw_posts tb')) - int (length (tbl_raw_posts tb))"
  using assms
  by (auto simp: insert_raw_stmt_def split: option.splits if_splits)

text \<open>
  A batch that runs to its end leaves every identifier of the batch stored, keeps
  the rows that were there, and never stores an identifier twice.
\<close>

lemma run_statements_raw_ids:
  "run_statements (insert_raw_stmt env) vals (tb, rc) = Inr (tb', rc')
   \<Longrightarrow> set (map first_column (tbl_raw_posts tb')) =
         set (map first_column (tbl_raw_posts tb)) \<union> first_column ` set vals
       \<and> (distinct (map first_column (tbl_raw_posts tb))
            \<longrightarrow> distinct (map first_column (tbl_raw_posts tb')))
       \<and> prefix (tbl_raw_posts tb) (tbl_raw_posts tb')"
proof (induction vals arbitrary: tb rc)
  case Nil
  then show ?case by simp
next
  case (Cons v vals)
  from Cons.prems obtain tb1 n where
    step: "insert_raw_stmt env v tb = Inr (tb1, n)" and
    rest: "run_statements (insert_raw_stmt env) vals (tb1, n) = Inr (tb', rc')"
    by (auto split: sum.splits)
  from Cons.IH [OF rest] insert_raw_stmt_ids [OF step] show ?case
    by (auto intro: prefix_order.trans)
qed

text \<open>The row count left in the cursor is that of the last statement: 0 or 1.\<close>

lemma run_statements_raw_rowcount:
  "run_statements (insert_raw_stmt env) vals (tb, rc) = Inr (tb', rc')
   \<Longrightarrow> vals \<noteq> [] \<Longrightarrow> rc' = 0 \<or> rc' = 1"
proof (induction vals arbitrary: tb rc)
  case Nil
  then show ?case by simp
next
  case (Cons v vals)
  from Cons.prems obtain tb1 n where
    step: "insert_raw_stmt env v tb = Inr (tb1, n)" and
    rest: "run_statements (insert_raw_stmt env) vals (tb1, n) = Inr (tb', rc')"
    by (auto split: sum.splits)
  from step have n: "n = 0 \<or> n = 1"
    by (auto simp: insert_raw_stmt_def split: option.splits if_splits)
  show ?case
  proof (cases vals)
    case Nil
    with rest n show ?thesis by simp
  next
    case (Cons a list)
    with Cons.IH [OF rest] show ?thesis by simp
  qed
qed

text \<open>
  A batch whose identifiers are all stored already changes nothing, and the row count
  left by a non-empty such batch is 0.
\<close>

lemma run_statements_raw_all_stored:
  "\<forall>v \<in> set vals. row_error env ''raw_posts'' v = None \<and> raw_posts_not_null v = None
                  \<and> first_column v \<in> first_column ` set (tbl_raw_posts tb)
   \<Longrightarrow> run_statements (insert_raw_stmt env) vals (tb, rc) =
         Inr (tb, if vals = [] then rc else 0)"
  by (induction vals arbitrary: rc) (auto simp: insert_raw_stmt_def)

lemma insert_raw_posts_stored_batch:
  assumes "fault_plan env (db_calls w) = no_faults"
      and "held w < maxconn"
      and "comprehension raw_post_values posts = Inr vals"
      and "vals \<noteq> []"
      and "\<forall>v \<in> set vals. row_error env ''raw_posts'' v = None \<and> raw_posts_not_null v = None
                          \<and> first_column v \<in> set (stored_post_ids w)"
  shows "fst (insert_raw_posts env posts w) = Inr 0
         \<and> db (snd (insert_raw_posts env posts w)) = db w"
proof -
  from assms(5) have "\<forall>v \<in> set vals. row_error env ''raw_posts'' v = None
      \<and> raw_posts_not_null v = None \<and> first_column v \<in> first_column ` set (tbl_raw_posts (db w))"
    by (simp add: stored_post_ids_def)
  from run_statements_raw_all_stored [OF this, of "- 1"] assms(1-4) show ?thesis
    by (simp add: insert_raw_posts_def insert_raw_posts_try_def db_op_defs execute_batch_def
        no_faults_def)
qed

text \<open>An empty batch runs no statement: the value returned is the \<open>-1\<close> of a fresh cursor.\<close>

lemma insert_raw_posts_empty_batch:
  assumes "fault_plan env (db_calls w) = no_faults" and "held w < maxconn"
  shows "fst (insert_raw_posts env [] w) = Inr (- 1)"
  using assms
  by (simp add: insert_raw_posts_def insert_raw_posts_try_def db_op_defs execute_batch_def
      no_faults_def)

text \<open>
  C3. The claim is that \<open>insert_raw_posts\<close> returns the number of rows it inserted.
  On an empty store, a batch of two posts with different identifiers stores both
  rows and returns 1: the value returned is \<open>cursor.rowcount\<close> after
  \<open>execute_batch\<close>, the row count of the last statement only.
\<close>

theorem insert_raw_posts_returns_last_rowcount:
  "fst (insert_raw_posts quiet_env
          [example_post (PStr ''a1'') (PStr ''reddit''),
           example_post (PStr ''a2'') (PStr ''reddit'')] empty_world) = Inr 1
   \<and> stored_post_ids (snd (insert_raw_posts quiet_env
          [example_post (PStr ''a1'') (PStr ''reddit''),
           example_post (PStr ''a2'') (PStr ''reddit'')] empty_world))
       = [PStr ''a1'', PStr ''a2'']"
  by (simp add: insert_raw_posts_def insert_raw_posts_try_def db_op_defs execute_batch_def
      insert_raw_stmt_def raw_post_values_def getitem_def Json_of_def maxconn_def
      example_post_def quiet_env_def empty_world_def no_faults_def stored_post_ids_def)

subsection \<open>A failed batch\<close>

text \<open>Whatever makes \<open>insert_raw_posts\<close> raise, the committed store is as before.\<close>

lemma insert_raw_posts_all_or_nothing:
  "fst (insert_raw_posts env posts w) = Inl e \<Longrightarrow> db (snd (insert_raw_posts env posts w)) = db w"
  by (auto simp: insert_raw_posts_def insert_raw_posts_try_def db_op_defs Let_def
      split: option.splits if_splits prod.splits sum.splits)

text \<open>The error of a batch is the error the store raised for one of its rows.\<close>

lemma run_statements_raw_error:
  "run_statements (insert_raw_stmt env) vals (tb, rc) = Inl e
   \<Longrightarrow> \<exists>v \<in> set vals. row_error env ''raw_posts'' v = Some e \<or> raw_posts_not_null v = Some e"
proof (induction vals arbitrary: tb rc)
  case Nil
  then show ?case by simp
next
  case (Cons v vals)
  show ?case
  proof (cases "insert_raw_stmt env v tb")
    case (Inl e')
    with Cons.prems have "e' = e" by simp
    with Inl show ?thesis
      by (auto simp: insert_raw_stmt_def split: option.splits if_splits)
  next
    case (Inr p)
    with Cons.prems Cons.IH [of "fst p" "snd p"] show ?thesis
      by (cases p) auto
  qed
qed

text \<open>
  C4, as the code has it. When a row of the batch makes the store raise for a reason
  other than a \<open>post_id\<close> conflict, \<open>insert_raw_posts\<close> logs the error, commits
  nothing (the committed store is unchanged, whatever rows of the batch were already
  inserted in the transaction), gives the connection back and raises. The exception
  that reaches the caller is the store's own, re-raised as it is; when the
  \<open>rollback\<close> itself raises, it is that exception instead. Nothing wraps it in a
  \<open>StorageError\<close>.
\<close>

theorem failed_batch_persists_nothing_and_reraises:
  assumes "getconn_fault (fault_plan env (db_calls w)) = None"
      and "held w < maxconn"
      and "cursor_fault (fault_plan env (db_calls w)) = None"
      and "execute_fault (fault_plan env (db_calls w)) = None"
      and "comprehension raw_post_values posts = Inr vals"
      and "run_statements (insert_raw_stmt env) vals (db w, - 1) = Inl e"
  shows "fst (insert_raw_posts env posts w) =
           Inl (case rollback_fault (fault_plan env (db_calls w)) of
                  None \<Rightarrow> e | Some e' \<Rightarrow> e')
         \<and> db (snd (insert_raw_posts env posts w)) = db w
         \<and> held (snd (insert_raw_posts env posts w)) = held w
         \<and> log (snd (insert_raw_posts env posts w)) =
             log w @ [(ERROR, [T ''Error inserting raw posts: '', E e])]"
proof -
  from assms(6) have "vals \<noteq> []"
    by (cases vals) auto
  with assms show ?thesis
    by (simp add: insert_raw_posts_def insert_raw_posts_try_def db_op_defs execute_batch_def
        split: option.splits)
qed

theorem failed_batch_persists_nothing_and_reraises_witness:
  "fst (insert_raw_posts quiet_env
          [example_post (PStr ''a1'') (PStr ''reddit''), example_post (PStr ''a2'') PNone]
          empty_world) = Inl (NotNullViolation ''platform'')
   \<and> db (snd (insert_raw_posts quiet_env
          [example_post (PStr ''a1'') (PStr ''reddit''), example_post (PStr ''a2'') PNone]
          empty_world)) = db empty_world
   \<and> held (snd (insert_raw_posts quiet_env
          [example_post (PStr ''a1'') (PStr ''reddit''), example_post (PStr ''a2'') PNone]
          empty_world)) = 0"
  using failed_batch_persists_nothing_and_reraises
    [of quiet_env empty_world
        "[example_post (PStr ''a1'') (PStr ''reddit''), example_post (PStr ''a2'') PNone]"
        "[[PStr ''a1'', PStr ''reddit'', PStr ''title'', PStr ''content'', PStr ''author'',
           PInt 1700000000, PStr ''url'', PInt 5, PInt 2, PStr ''news'',
           Json (PList [PStr ''outage'']), PStr ''2024-01-01T00:00:00''],
          [PStr ''a2'', PNone, PStr ''title'', PStr ''content'', PStr ''author'',
           PInt 1700000000, PStr ''url'', PInt 5, PInt 2, PStr ''news'',
           Json (PList [PStr ''outage'']), PStr ''2024-01-01T00:00:00'']]"
        "NotNullViolation ''platform''"]
  by (simp add: insert_raw_stmt_def raw_post_values_def getitem_def Json_of_def maxconn_def
      example_post_def quiet_env_def empty_world_def no_faults_def)

text \<open>
  C4, as the specification has it: a \<open>StorageError\<close> reaches the caller. For a batch
  whose second post has no platform, what reaches the caller is the store's
  \<open>NotNullViolation\<close>.
\<close>

theorem failed_batch_raises_no_StorageError:
  "\<not> raises_StorageError
       (fst (insert_raw_posts quiet_env
               [example_post (PStr ''a1'') (PStr ''reddit''), example_post (PStr ''a2'') PNone]
               empty_world))"
  by (simp add: insert_raw_posts_def insert_raw_posts_try_def db_op_defs execute_batch_def
      insert_raw_stmt_def raw_post_values_def getitem_def Json_of_def maxconn_def
      example_post_def quiet_env_def empty_world_def no_faults_def raises_StorageError_def
      NotNullViolation_def)

section \<open>\<open>PipelineMetrics.end_stage\<close>\<close>

lemma map_fst_update:
  "map fst (AList.update k v al) = (if k \<in> fst ` set al then map fst al else map fst al @ [k])"
  by (induction al) auto

text \<open>
  C9, as the code has it. For a stage name \<open>start_stage\<close> was never called with,
  \<open>end_stage\<close> changes nothing at all: no end time, no duration, no clock read, and
  no log record. The condition is passed over in silence.
\<close>

theorem end_stage_never_started_changes_nothing:
  "stage_name \<notin> set (stages_started w) \<Longrightarrow> end_stage env stage_name w = w"
  by (simp add: end_stage_def stages_started_def map_of_eq_None_iff [symmetric])

theorem end_stage_never_started_changes_nothing_witness:
  "''storage'' \<notin> set (stages_started (start_stage quiet_env ''collection'' empty_world))
   \<and> end_stage quiet_env ''storage'' (start_stage quiet_env ''collection'' empty_world)
       = start_stage quiet_env ''collection'' empty_world"
  using end_stage_never_started_changes_nothing
    [of "''storage''" "start_stage quiet_env ''collection'' empty_world" quiet_env]
  by (simp add: stages_started_def start_stage_def time_time_def empty_world_def
      PipelineMetrics_init_def)

text \<open>
  C9, as the specification has it: the call is flagged by a warning. After
  \<open>end_stage\<close> for a name that was never started, the log is still empty.
\<close>

theorem end_stage_never_started_logs_nothing:
  "''storage'' \<notin> set (stages_started empty_world)
   \<and> log (end_stage quiet_env ''storage'' empty_world) = []"
  by (simp add: end_stage_def stages_started_def empty_world_def PipelineMetrics_init_def)

section \<open>The orchestrator: how the state moves\<close>

subsection \<open>What each step leaves alone\<close>

lemma logger_frame [simp]:
  "db (logger lv msg w) = db w"
  "db_calls (logger lv msg w) = db_calls w"
  "held (logger lv msg w) = held w"
  "ticks (logger lv msg w) = ticks w"
  "metrics (logger lv msg w) = metrics w"
  "summary_file (logger lv msg w) = summary_file w"
  "log (logger lv msg w) = log w @ [(lv, msg)]"
  by (simp_all add: logger_def)

lemma stage_banner_frame [simp]:
  "db (stage_banner title w) = db w"
  "db_calls (stage_banner title w) = db_calls w"
  "held (stage_banner title w) = held w"
  "ticks (stage_banner title w) = ticks w"
  "metrics (stage_banner title w) = metrics w"
  "summary_file (stage_banner title w) = summary_file w"
  "log (stage_banner title w) = log w @ [(INFO, [T title]), (INFO, [T ''----''])]"
  by (simp_all add: stage_banner_def)

lemma start_stage_frame [simp]:
  "db (start_stage env n w) = db w"
  "db_calls (start_stage env n w) = db_calls w"
  "held (start_stage env n w) = held w"
  "log (start_stage env n w) = log w"
  "summary_file (start_stage env n w) = summary_file w"
  "errors (metrics (start_stage env n w)) = errors (metrics w)"
  "posts_collected (metrics (start_stage env n w)) = posts_collected (metrics w)"
  "posts_processed (metrics (start_stage env n w)) = posts_processed (metrics w)"
  "posts_stored (metrics (start_stage env n w)) = posts_stored (metrics w)"
  "alerts_generated (metrics (start_stage env n w)) = alerts_generated (metrics w)"
  "start_time (metrics (start_stage env n w)) = start_time (metrics w)"
  by (simp_all add: start_stage_def time_time_def)

lemma end_stage_frame [simp]:
  "db (end_stage env n w) = db w"
  "db_calls (end_stage env n w) = db_calls w"
  "held (end_stage env n w) = held w"
  "log (end_stage env n w) = log w"
  "summary_file (end_stage env n w) = summary_file w"
  "errors (metrics (end_stage env n w)) = errors (metrics w)"
  "posts_collected (metrics (end_stage env n w)) = posts_collected (metrics w)"
  "posts_processed (metrics (end_stage env n w)) = posts_processed (metrics w)"
  "posts_stored (metrics (end_stage env n w)) = posts_stored (metrics w)"
  "alerts_generated (metrics (end_stage env n w)) = alerts_generated (metrics w)"
  "start_time (metrics (end_stage env n w)) = start_time (metrics w)"
  by (simp_all add: end_stage_def time_time_def split: option.splits)

lemma add_error_frame [simp]:
  "db (add_error env st m w) = db w"
  "db_calls (add_error env st m w) = db_calls w"
  "held (add_error env st m w) = held w"
  "log (add_error env st m w) = log w"
  "summary_file (add_error env st m w) = summary_file w"
  "stage_durations (metrics (add_error env st m w)) = stage_durations (metrics w)"
  "posts_collected (metrics (add_error env st m w)) = posts_collected (metrics w)"
  "posts_processed (metrics (add_error env st m w)) = posts_processed (metrics w)"
  "posts_stored (metrics (add_error env st m w)) = posts_stored (metrics w)"
  "alerts_generated (metrics (add_error env st m w)) = alerts_generated (metrics w)"
  "start_time (metrics (add_error env st m w)) = start_time (metrics w)"
  by (simp_all add: add_error_def time_time_def)

lemma error_log_steps [simp]:
  "error_log (logger lv msg w) = error_log w"
  "error_log (stage_banner title w) = error_log w"
  "error_log (start_stage env n w) = error_log w"
  "error_log (end_stage env n w) = error_log w"
  "error_log (add_error env st m w) = error_log w @ [(st, m)]"
  by (simp_all add: error_log_def add_error_def time_time_def)

lemma stages_started_steps [simp]:
  "stages_started (logger lv msg w) = stages_started w"
  "stages_started (stage_banner title w) = stages_started w"
  "stages_started (add_error env st m w) = stages_started w"
  "stages_started (start_stage env n w) =
     (if n \<in> set (stages_started w) then stages_started w else stages_started w @ [n])"
  "stages_started (end_stage env n w) = stages_started w"
      apply (simp_all add: stages_started_def)
   apply (simp add: start_stage_def time_time_def map_fst_update)
  apply (auto simp: end_stage_def time_time_def map_fst_update map_of_eq_None_iff
      split: option.splits)
  done

subsection \<open>The persistence calls of the pipeline\<close>

lemma insert_raw_posts_frame [simp]:
  "metrics (snd (insert_raw_posts env posts w)) = metrics w"
  "ticks (snd (insert_raw_posts env posts w)) = ticks w"
  "summary_file (snd (insert_raw_posts env posts w)) = summary_file w"
  "db_calls (snd (insert_raw_posts env posts w)) = Suc (db_calls w)"
  by (auto simp: insert_raw_posts_def insert_raw_posts_try_def db_op_defs Let_def
      split: option.splits if_splits prod.splits sum.splits)

lemma insert_processed_posts_frame [simp]:
  "metrics (snd (insert_processed_posts env posts mv w)) = metrics w"
  "ticks (snd (insert_processed_posts env posts mv w)) = ticks w"
  "summary_file (snd (insert_processed_posts env posts mv w)) = summary_file w"
  "db_calls (snd (insert_processed_posts env posts mv w)) = Suc (db_calls w)"
  by (auto simp: insert_processed_posts_def insert_processed_posts_try_def db_op_defs Let_def
      split: option.splits if_splits prod.splits sum.splits)

lemma record_metric_frame [simp]:
  "metrics (snd (record_metric env a b c w)) = metrics w"
  "ticks (snd (record_metric env a b c w)) = ticks w"
  "summary_file (snd (record_metric env a b c w)) = summary_file w"
  "db_calls (snd (record_metric env a b c w)) = Suc (db_calls w)"
  by (auto simp: record_metric_def record_metric_try_def db_op_defs Let_def
      split: option.splits if_splits prod.splits sum.splits)

lemma record_metric_log: "set (log w) \<subseteq> set (log (snd (record_metric env a b c w)))"
  by (auto simp: record_metric_def record_metric_try_def db_op_defs Let_def
      split: option.splits if_splits prod.splits sum.splits)

lemma record_metric_frameD:
  "record_metric env a b c w = (r, w1)
   \<Longrightarrow> metrics w1 = metrics w \<and> ticks w1 = ticks w \<and> summary_file w1 = summary_file w
       \<and> db_calls w1 = Suc (db_calls w) \<and> set (log w) \<subseteq> set (log w1)"
  using record_metric_frame [of env a b c w] record_metric_log [of w env a b c] by simp

lemma record_all_frame:
  "metrics (snd (record_all env ms w)) = metrics w
   \<and> ticks (snd (record_all env ms w)) = ticks w
   \<and> summary_file (snd (record_all env ms w)) = summary_file w
   \<and> set (log w) \<subseteq> set (log (snd (record_all env ms w)))
   \<and> db_calls w \<le> db_calls (snd (record_all env ms w))"
proof (induction env ms w rule: record_all.induct)
  case (1 env w)
  show ?case by simp
next
  case (2 env name val rest w)
  obtain r w1 where r: "record_metric env (PStr name) val PNone w = (r, w1)"
    by (cases "record_metric env (PStr name) val PNone w")
  note w1 = record_metric_frameD [OF r]
  show ?case
  proof (cases r)
    case None
    with 2 [OF r [symmetric]] r w1 show ?thesis by auto
  next
    case (Some e)
    with r w1 show ?thesis by auto
  qed
qed

lemma record_all_calls_first:
  "ms \<noteq> [] \<Longrightarrow> db_calls w < db_calls (snd (record_all env ms w))"
proof (cases ms)
  case Nil
  then show "ms \<noteq> [] \<Longrightarrow> ?thesis" by simp
next
  case (Cons m rest)
  obtain name val where m: "m = (name, val)" by (cases m)
  obtain r w1 where r: "record_metric env (PStr name) val PNone w = (r, w1)"
    by (cases "record_metric env (PStr name) val PNone w")
  note w1 = record_metric_frameD [OF r]
  from record_all_frame [of env rest w1] have "db_calls w1 \<le> db_calls (snd (record_all env rest w1))"
    by simp
  with Cons m r w1 show ?thesis
    by (cases r) auto
qed

lemma record_metrics_frame:
  "metrics (record_metrics env w) = metrics w"
  "ticks (record_metrics env w) = ticks w"
  "summary_file (record_metrics env w) = summary_file w"
  "db_calls w < db_calls (record_metrics env w)"
  "(INFO, [T ''STAGE 5: Recording Metrics'']) \<in> set (log (record_metrics env w))"
  "set (log w) \<subseteq> set (log (record_metrics env w))"
proof -
  define wb where "wb = stage_banner ''STAGE 5: Recording Metrics'' w"
  define ms where "ms =
     [(''posts_collected'', PInt (s_posts_collected (get_summary (metrics wb)))),
      (''posts_processed'', PInt (s_posts_processed (get_summary (metrics wb)))),
      (''alerts_generated'', PInt (s_alerts_generated (get_summary (metrics wb)))),
      (''execution_time'', PFloat (s_execution_time (get_summary (metrics wb)))),
      (''error_count'', PInt (int (s_error_count (get_summary (metrics wb)))))]"
  obtain r w1 where r: "record_all env ms wb = (r, w1)"
    by (cases "record_all env ms wb")
  have ne: "ms \<noteq> []" by (simp add: ms_def)
  from record_all_frame [of env ms wb] record_all_calls_first [OF ne, of wb env] r
  have w1: "metrics w1 = metrics wb" "ticks w1 = ticks wb" "summary_file w1 = summary_file wb"
    "set (log wb) \<subseteq> set (log w1)" "db_calls wb < db_calls w1"
    by simp_all
  have res: "record_metrics env w =
      (case r of Some e \<Rightarrow> logger ERROR [T ''Failed to record metrics: '', E e] w1
               | None \<Rightarrow> logger INFO [T ''Metrics recorded to database''] w1)"
    using r by (simp add: record_metrics_def record_metrics_try_def Let_def wb_def ms_def
        split: option.splits)
  have wb: "metrics wb = metrics w" "ticks wb = ticks w" "summary_file wb = summary_file w"
    "db_calls wb = db_calls w"
    "log wb = log w @ [(INFO, [T ''STAGE 5: Recording Metrics'']), (INFO, [T ''----''])]"
    by (simp_all add: wb_def)
  show "metrics (record_metrics env w) = metrics w"
    using res w1 wb by (cases r) simp_all
  show "ticks (record_metrics env w) = ticks w"
    using res w1 wb by (cases r) simp_all
  show "summary_file (record_metrics env w) = summary_file w"
    using res w1 wb by (cases r) simp_all
  show "db_calls w < db_calls (record_metrics env w)"
    using res w1 wb by (cases r) simp_all
  show "(INFO, [T ''STAGE 5: Recording Metrics'']) \<in> set (log (record_metrics env w))"
    using res w1(4) wb(5) by (cases r) auto
  show "set (log w) \<subseteq> set (log (record_metrics env w))"
    using res w1(4) wb(5) by (cases r) auto
qed

text \<open>With a store that works, the metrics stage appends its five rows.\<close>

lemma record_metric_inserts:
  assumes "fault_plan env (db_calls w) = no_faults"
      and "held w < maxconn"
      and "row_error env ''pipeline_metrics'' [metric_name, metric_value, Json (PDict [])] = None"
  shows "fst (record_metric env metric_name metric_value PNone w) = None"
    and "tbl_pipeline_metrics (db (snd (record_metric env metric_name metric_value PNone w))) =
           tbl_pipeline_metrics (db w) @ [[metric_name, metric_value, Json (PDict [])]]"
    and "held (snd (record_metric env metric_name metric_value PNone w)) = held w"
    and "db_calls (snd (record_metric env metric_name metric_value PNone w)) = Suc (db_calls w)"
  using assms
  by (simp_all add: record_metric_def record_metric_try_def insert_metric_stmt_def db_op_defs
      no_faults_def)

lemma record_all_inserts:
  assumes "\<forall>n. fault_plan env n = no_faults"
      and "held w < maxconn"
      and "\<forall>v. row_error env ''pipeline_metrics'' v = None"
  shows "fst (record_all env ms w) = None
         \<and> tbl_pipeline_metrics (db (snd (record_all env ms w))) =
             tbl_pipeline_metrics (db w) @ map (\<lambda>(name, val). [PStr name, val, Json (PDict [])]) ms
         \<and> held (snd (record_all env ms w)) = held w"
  using assms(2)
proof (induction ms arbitrary: w)
  case Nil
  then show ?case by simp
next
  case (Cons m ms)
  obtain name val where m: "m = (name, val)" by (cases m)
  obtain r w1 where r: "record_metric env (PStr name) val PNone w = (r, w1)"
    by (cases "record_metric env (PStr name) val PNone w")
  from assms(1,3) Cons.prems have a: "fault_plan env (db_calls w) = no_faults" "held w < maxconn"
    "row_error env ''pipeline_metrics'' [PStr name, val, Json (PDict [])] = None"
    by simp_all
  from record_metric_inserts [OF a] r have w1: "r = None"
    "tbl_pipeline_metrics (db w1) = tbl_pipeline_metrics (db w) @ [[PStr name, val, Json (PDict [])]]"
    "held w1 = held w"
    by simp_all
  from Cons.IH [of w1] w1 Cons.prems m r show ?case
    by simp
qed

lemma record_metrics_rows:
  assumes "\<forall>n. fault_plan env n = no_faults"
      and "held w < maxconn"
      and "\<forall>v. row_error env ''pipeline_metrics'' v = None"
  shows "tbl_pipeline_metrics (db (record_metrics env w)) =
           tbl_pipeline_metrics (db w) @
           [[PStr ''posts_collected'', PInt (posts_collected (metrics w)), Json (PDict [])],
            [PStr ''posts_processed'', PInt (posts_processed (metrics w)), Json (PDict [])],
            [PStr ''alerts_generated'', PInt (alerts_generated (metrics w)), Json (PDict [])],
            [PStr ''execution_time'', PFloat (total_duration (metrics w)), Json (PDict [])],
            [PStr ''error_count'', PInt (int (length (errors (metrics w)))), Json (PDict [])]]"
proof -
  define wb where "wb = stage_banner ''STAGE 5: Recording Metrics'' w"
  define ms where "ms =
     [(''posts_collected'', PInt (s_posts_collected (get_summary (metrics wb)))),
      (''posts_processed'', PInt (s_posts_processed (get_summary (metrics wb)))),
      (''alerts_generated'', PInt (s_alerts_generated (get_summary (metrics wb)))),
      (''execution_time'', PFloat (s_execution_time (get_summary (metrics wb)))),
      (''error_count'', PInt (int (s_error_count (get_summary (metrics wb)))))]"
  have h: "held wb < maxconn"
    using assms(2) by (simp add: wb_def)
  obtain r w1 where r: "record_all env ms wb = (r, w1)"
    by (cases "record_all env ms wb")
  from record_all_inserts [OF assms(1) h assms(3), of ms] r
  have w1: "r = None" "tbl_pipeline_metrics (db w1) =
      tbl_pipeline_metrics (db wb) @ map (\<lambda>(name, val). [PStr name, val, Json (PDict [])]) ms"
    by simp_all
  have res: "record_metrics env w = logger INFO [T ''Metrics recorded to database''] w1"
    using r w1(1) by (simp add: record_metrics_def record_metrics_try_def Let_def wb_def ms_def)
  show ?thesis
    using w1(2) by (simp add: res ms_def wb_def get_summary_def)
qed

subsection \<open>What the stages change\<close>

lemma collect_data_try_frame:
  "collect_data_try env cfg w = (r, w1)
   \<Longrightarrow> db w1 = db w \<and> db_calls w1 = db_calls w \<and> held w1 = held w
       \<and> summary_file w1 = summary_file w
       \<and> start_time (metrics w1) = start_time (metrics w) \<and> set (log w) \<subseteq> set (log w1)
       \<and> error_log w1 = error_log w \<and> stages_started w1 = stages_started w
       \<and> posts_processed (metrics w1) = posts_processed (metrics w)
       \<and> posts_stored (metrics w1) = posts_stored (metrics w)
       \<and> alerts_generated (metrics w1) = alerts_generated (metrics w)
       \<and> (case r of Inl e \<Rightarrow> posts_collected (metrics w1) = posts_collected (metrics w)
                    | Inr posts \<Rightarrow> posts_collected (metrics w1) = int (length posts))"
  by (auto simp: collect_data_try_def Let_def error_log_def stages_started_def
      split: sum.splits)

lemma collect_data_frame:
  "collect_data env cfg w = (r, w1)
   \<Longrightarrow> db w1 = db w \<and> db_calls w1 = db_calls w \<and> held w1 = held w
       \<and> summary_file w1 = summary_file w
       \<and> start_time (metrics w1) = start_time (metrics w) \<and> set (log w) \<subseteq> set (log w1)
       \<and> stages_started w1 =
           (if ''collection'' \<in> set (stages_started w) then stages_started w
            else stages_started w @ [''collection''])
       \<and> posts_processed (metrics w1) = posts_processed (metrics w)
       \<and> posts_stored (metrics w1) = posts_stored (metrics w)
       \<and> alerts_generated (metrics w1) = alerts_generated (metrics w)
       \<and> (case r of
             Inl e \<Rightarrow> error_log w1 = error_log w @ [(''collection'', exc_str e)]
           | Inr posts \<Rightarrow> error_log w1 = error_log w
                         \<and> posts_collected (metrics w1) = int (length posts))"
proof -
  assume a: "collect_data env cfg w = (r, w1)"
  define wa where "wa = start_stage env ''collection'' (stage_banner ''STAGE 1: Data Collection'' w)"
  obtain r' w' where t: "collect_data_try env cfg wa = (r', w')"
    by (cases "collect_data_try env cfg wa")
  note f = collect_data_try_frame [OF t]
  from a t show ?thesis
    using f by (auto simp: collect_data_def Let_def wa_def split: sum.splits)
qed


lemma process_data_try_frame:
  "process_data_try env raw_posts w = (r, w1)
   \<Longrightarrow> db w1 = db w \<and> db_calls w1 = db_calls w \<and> held w1 = held w
       \<and> summary_file w1 = summary_file w
       \<and> start_time (metrics w1) = start_time (metrics w) \<and> set (log w) \<subseteq> set (log w1)
       \<and> error_log w1 = error_log w \<and> stages_started w1 = stages_started w
       \<and> posts_collected (metrics w1) = posts_collected (metrics w)
       \<and> posts_stored (metrics w1) = posts_stored (metrics w)
       \<and> alerts_generated (metrics w1) = alerts_generated (metrics w)
       \<and> (case r of Inl e \<Rightarrow> True
                    | Inr posts \<Rightarrow> posts_processed (metrics w1) = int (length posts))"
  by (auto simp: process_data_try_def Let_def error_log_def stages_started_def
      split: sum.splits)

lemma process_data_guarded_frame:
  "process_data_guarded env raw_posts w = (r, w1)
   \<Longrightarrow> db w1 = db w \<and> db_calls w1 = db_calls w \<and> held w1 = held w
       \<and> summary_file w1 = summary_file w
       \<and> start_time (metrics w1) = start_time (metrics w) \<and> set (log w) \<subseteq> set (log w1)
       \<and> stages_started w1 =
           (if ''processing'' \<in> set (stages_started w) then stages_started w
            else stages_started w @ [''processing''])
       \<and> posts_collected (metrics w1) = posts_collected (metrics w)
       \<and> posts_stored (metrics w1) = posts_stored (metrics w)
       \<and> alerts_generated (metrics w1) = alerts_generated (metrics w)
       \<and> (case r of
             Inl e \<Rightarrow> error_log w1 = error_log w @ [(''processing'', exc_str e)]
           | Inr posts \<Rightarrow> error_log w1 = error_log w
                         \<and> posts_processed (metrics w1) = int (length posts))"
proof -
  assume a: "process_data_guarded env raw_posts w = (r, w1)"
  define wa where "wa = start_stage env ''processing'' (stage_banner ''STAGE 2: ML Processing'' w)"
  obtain r' w' where t: "process_data_try env raw_posts wa = (r', w')"
    by (cases "process_data_try env raw_posts wa")
  note f = process_data_try_frame [OF t]
  from a t show ?thesis
    using f by (auto simp: process_data_guarded_def Let_def wa_def split: sum.splits)
qed

lemma comprehension_length: "comprehension g xs = Inr ys \<Longrightarrow> length ys = length xs"
  by (induction xs arbitrary: ys) (auto split: sum.splits)

lemma comprehension_Inr: "comprehension (\<lambda>x. Inr x) xs = Inr xs"
  by (induction xs) auto

text \<open>
  \<open>_process_data\<close> as a whole: when it raises, the exception was either recorded by
  the handler of the stage or raised by the conversion after it; the frame is the
  same in both cases.
\<close>

lemma process_data_frame:
  "process_data env raw_posts w = (r, w1)
   \<Longrightarrow> db w1 = db w \<and> db_calls w1 = db_calls w \<and> held w1 = held w
       \<and> summary_file w1 = summary_file w
       \<and> start_time (metrics w1) = start_time (metrics w)
       \<and> set (log w) \<subseteq> set (log w1)
       \<and> stages_started w1 =
           (if ''processing'' \<in> set (stages_started w) then stages_started w
            else stages_started w @ [''processing''])
       \<and> posts_collected (metrics w1) = posts_collected (metrics w)
       \<and> posts_stored (metrics w1) = posts_stored (metrics w)
       \<and> alerts_generated (metrics w1) = alerts_generated (metrics w)
       \<and> (case r of
             Inl e \<Rightarrow> True
           | Inr posts \<Rightarrow> error_log w1 = error_log w
                         \<and> posts_processed (metrics w1) = int (length posts))"
proof -
  assume a: "process_data env raw_posts w = (r, w1)"
  obtain r' w' where g: "process_data_guarded env raw_posts w = (r', w')"
    by (cases "process_data_guarded env raw_posts w")
  note f = process_data_guarded_frame [OF g]
  from a g f show ?thesis
    by (auto simp: process_data_def split: sum.splits dest: comprehension_length)
qed

lemma run_statements_raw_other_tables:
  "run_statements (insert_raw_stmt env) vals (tb, rc) = Inr (tb', rc')
   \<Longrightarrow> tbl_alerts tb' = tbl_alerts tb \<and> tbl_pipeline_metrics tb' = tbl_pipeline_metrics tb
       \<and> tbl_processed_posts tb' = tbl_processed_posts tb"
  by (induction vals arbitrary: tb rc)
     (auto simp: insert_raw_stmt_def split: sum.splits option.splits if_splits)

lemma run_statements_processed_other_tables:
  "run_statements (insert_processed_stmt env) vals (tb, rc) = Inr (tb', rc')
   \<Longrightarrow> tbl_alerts tb' = tbl_alerts tb \<and> tbl_pipeline_metrics tb' = tbl_pipeline_metrics tb
       \<and> tbl_raw_posts tb' = tbl_raw_posts tb"
  by (induction vals arbitrary: tb rc)
     (auto simp: insert_processed_stmt_def split: sum.splits option.splits if_splits)

lemma insert_raw_posts_tables:
  "tbl_alerts (db (snd (insert_raw_posts env posts w))) = tbl_alerts (db w)"
  "tbl_pipeline_metrics (db (snd (insert_raw_posts env posts w))) = tbl_pipeline_metrics (db w)"
  "set (log (snd (insert_raw_posts env posts w))) \<supseteq> set (log w)"
  by (auto simp: insert_raw_posts_def insert_raw_posts_try_def db_op_defs execute_batch_def Let_def
      split: option.splits if_splits prod.splits sum.splits
      dest: run_statements_raw_other_tables)

lemma insert_processed_posts_tables:
  "tbl_alerts (db (snd (insert_processed_posts env posts mv w))) = tbl_alerts (db w)"
  "tbl_pipeline_metrics (db (snd (insert_processed_posts env posts mv w))) =
     tbl_pipeline_metrics (db w)"
  "set (log (snd (insert_processed_posts env posts mv w))) \<supseteq> set (log w)"
  by (auto simp: insert_processed_posts_def insert_processed_posts_try_def db_op_defs
      execute_batch_def Let_def
      split: option.splits if_splits prod.splits sum.splits
      dest: run_statements_processed_other_tables)

lemma insert_raw_posts_frameD:
  "insert_raw_posts env posts w = (r, w1)
   \<Longrightarrow> metrics w1 = metrics w \<and> ticks w1 = ticks w \<and> summary_file w1 = summary_file w
       \<and> db_calls w1 = Suc (db_calls w) \<and> held w1 = held w
       \<and> tbl_alerts (db w1) = tbl_alerts (db w)
       \<and> tbl_pipeline_metrics (db w1) = tbl_pipeline_metrics (db w)
       \<and> set (log w) \<subseteq> set (log w1)"
proof -
  assume "insert_raw_posts env posts w = (r, w1)"
  then have "w1 = snd (insert_raw_posts env posts w)" by simp
  then show ?thesis
    by (simp add: insert_raw_posts_tables held_insert_raw_posts)
qed

lemma insert_processed_posts_frameD:
  "insert_processed_posts env posts mv w = (r, w1)
   \<Longrightarrow> metrics w1 = metrics w \<and> ticks w1 = ticks w \<and> summary_file w1 = summary_file w
       \<and> db_calls w1 = Suc (db_calls w) \<and> held w1 = held w
       \<and> tbl_alerts (db w1) = tbl_alerts (db w)
       \<and> tbl_pipeline_metrics (db w1) = tbl_pipeline_metrics (db w)
       \<and> set (log w) \<subseteq> set (log w1)"
proof -
  assume "insert_processed_posts env posts mv w = (r, w1)"
  then have "w1 = snd (insert_processed_posts env posts mv w)" by simp
  then show ?thesis
    by (simp add: insert_processed_posts_tables held_insert_processed_posts)
qed


lemma store_data_try_frame:
  "store_data_try env cfg raw_posts processed_posts w = (r, w1)
   \<Longrightarrow> ticks w1 = ticks w \<and> held w1 = held w \<and> summary_file w1 = summary_file w
       \<and> start_time (metrics w1) = start_time (metrics w)
       \<and> set (log w) \<subseteq> set (log w1)
       \<and> error_log w1 = error_log w \<and> stages_started w1 = stages_started w
       \<and> posts_collected (metrics w1) = posts_collected (metrics w)
       \<and> posts_processed (metrics w1) = posts_processed (metrics w)
       \<and> alerts_generated (metrics w1) = alerts_generated (metrics w)
       \<and> tbl_alerts (db w1) = tbl_alerts (db w)
       \<and> tbl_pipeline_metrics (db w1) = tbl_pipeline_metrics (db w)
       \<and> db_calls w \<le> db_calls w1 \<and> db_calls w1 \<le> db_calls w + 2
       \<and> (r = None \<longrightarrow> db_calls w1 = db_calls w + 2)"
proof -
  assume a: "store_data_try env cfg raw_posts processed_posts w = (r, w1)"
  show ?thesis
  proof (cases "comprehension (asdict env) raw_posts")
    case (Inl e)
    with a show ?thesis
      by (auto simp: store_data_try_def)
  next
    case rd: (Inr raw_posts_dict)
  obtain r1 wa where i1: "insert_raw_posts env raw_posts_dict w = (r1, wa)"
    by (cases "insert_raw_posts env raw_posts_dict w")
  note f1 = insert_raw_posts_frameD [OF i1]
  show ?thesis
  proof (cases r1)
    case (Inl e)
    with a i1 f1 rd show ?thesis
      by (auto simp: store_data_try_def error_log_def stages_started_def)
  next
    case (Inr raw_count)
    define wb where "wb = logger INFO [T ''Stored '', I raw_count, T '' raw posts''] wa"
    show ?thesis
    proof (cases "getsection cfg ''ml''")
      case (Inl e)
      with a i1 f1 Inr rd show ?thesis
        by (auto simp: store_data_try_def error_log_def stages_started_def Let_def)
    next
      case ml: (Inr ml)
      obtain r2 wc where i2: "insert_processed_posts env processed_posts
          (dict_get ml ''model_version'' (PStr ''v1.0'')) wb = (r2, wc)"
        by (cases "insert_processed_posts env processed_posts
          (dict_get ml ''model_version'' (PStr ''v1.0'')) wb")
      note f2 = insert_processed_posts_frameD [OF i2]
      from a i1 i2 Inr ml rd have res:
        "(r, w1) = (case r2 of Inl e \<Rightarrow> (Some e, wc)
           | Inr processed_count \<Rightarrow>
               (None, (logger INFO [T ''Stored '', I processed_count, T '' processed posts''] wc)
                  \<lparr>metrics := (metrics wc)\<lparr>posts_stored := raw_count\<rparr>\<rparr>))"
        by (simp add: store_data_try_def Let_def wb_def split: sum.splits)
      from res f1 f2 show ?thesis
        by (cases r2) (auto simp: error_log_def stages_started_def wb_def)
    qed
  qed
qed
qed

lemma store_data_frame:
  "store_data env cfg raw_posts processed_posts w = (r, w1)
   \<Longrightarrow> held w1 = held w \<and> summary_file w1 = summary_file w
       \<and> start_time (metrics w1) = start_time (metrics w)
       \<and> set (log w) \<subseteq> set (log w1)
       \<and> stages_started w1 =
           (if ''storage'' \<in> set (stages_started w) then stages_started w
            else stages_started w @ [''storage''])
       \<and> posts_collected (metrics w1) = posts_collected (metrics w)
       \<and> posts_processed (metrics w1) = posts_processed (metrics w)
       \<and> alerts_generated (metrics w1) = alerts_generated (metrics w)
       \<and> tbl_alerts (db w1) = tbl_alerts (db w)
       \<and> tbl_pipeline_metrics (db w1) = tbl_pipeline_metrics (db w)
       \<and> db_calls w \<le> db_calls w1 \<and> db_calls w1 \<le> db_calls w + 2
       \<and> (case r of
             Some e \<Rightarrow> error_log w1 = error_log w @ [(''storage'', exc_str e)]
           | None \<Rightarrow> error_log w1 = error_log w \<and> db_calls w1 = db_calls w + 2)"
proof -
  assume a: "store_data env cfg raw_posts processed_posts w = (r, w1)"
  define wa where "wa = start_stage env ''storage'' (stage_banner ''STAGE 3: Data Storage'' w)"
  obtain r' w' where t: "store_data_try env cfg raw_posts processed_posts wa = (r', w')"
    by (cases "store_data_try env cfg raw_posts processed_posts wa")
  note f = store_data_try_frame [OF t]
  from a t show ?thesis
    using f by (auto simp: store_data_def Let_def wa_def split: option.splits)
qed

lemma generate_alerts_try_frame:
  "generate_alerts_try env cfg processed_posts w = (r, w1)
   \<Longrightarrow> ticks w1 = ticks w \<and> held w1 = held w \<and> summary_file w1 = summary_file w
       \<and> start_time (metrics w1) = start_time (metrics w)
       \<and> db_calls w1 = db_calls w
       \<and> set (log w) \<subseteq> set (log w1)
       \<and> error_log w1 = error_log w \<and> stages_started w1 = stages_started w
       \<and> posts_collected (metrics w1) = posts_collected (metrics w)
       \<and> posts_processed (metrics w1) = posts_processed (metrics w)
       \<and> posts_stored (metrics w1) = posts_stored (metrics w)"
  by (auto simp: generate_alerts_try_def Let_def error_log_def stages_started_def
      split: sum.splits prod.splits option.splits)

lemma generate_alerts_caught_frame:
  "generate_alerts_caught env cfg processed_posts w = (r, w1)
   \<Longrightarrow> held w1 = held w \<and> summary_file w1 = summary_file w
       \<and> start_time (metrics w1) = start_time (metrics w)
       \<and> db_calls w1 = db_calls w
       \<and> set (log w) \<subseteq> set (log w1)
       \<and> (INFO, [T ''STAGE 4: Alert Generation'']) \<in> set (log w1)
       \<and> stages_started w1 =
           (if ''alerts'' \<in> set (stages_started w) then stages_started w
            else stages_started w @ [''alerts''])
       \<and> posts_collected (metrics w1) = posts_collected (metrics w)
       \<and> posts_processed (metrics w1) = posts_processed (metrics w)
       \<and> posts_stored (metrics w1) = posts_stored (metrics w)
       \<and> (case r of
             Some e \<Rightarrow> error_log w1 = error_log w @ [(''alerts'', exc_str e)]
                       \<and> (ERROR, [T ''Alert generation failed: '', E e]) \<in> set (log w1)
           | None \<Rightarrow> error_log w1 = error_log w)"
proof -
  assume a: "generate_alerts_caught env cfg processed_posts w = (r, w1)"
  define wa where "wa = start_stage env ''alerts'' (stage_banner ''STAGE 4: Alert Generation'' w)"
  obtain r' w' where t: "generate_alerts_try env cfg processed_posts wa = (r', w')"
    by (cases "generate_alerts_try env cfg processed_posts wa")
  note f = generate_alerts_try_frame [OF t]
  from a t show ?thesis
    using f by (auto simp: generate_alerts_caught_def Let_def wa_def split: option.splits)
qed

subsection \<open>The start, the handler and the finalization of \<open>run\<close>\<close>

lemma run_start_frame:
  "db (run_start env w) = db w"
  "db_calls (run_start env w) = db_calls w"
  "held (run_start env w) = held w"
  "summary_file (run_start env w) = summary_file w"
  "error_log (run_start env w) = error_log w"
  "stages_started (run_start env w) = stages_started w"
  "posts_collected (metrics (run_start env w)) = posts_collected (metrics w)"
  "posts_processed (metrics (run_start env w)) = posts_processed (metrics w)"
  "posts_stored (metrics (run_start env w)) = posts_stored (metrics w)"
  "alerts_generated (metrics (run_start env w)) = alerts_generated (metrics w)"
  "start_time (metrics (run_start env w)) = Some (clock env (ticks w))"
  "set (log (run_start env w)) \<supseteq> set (log w)"
  by (auto simp: run_start_def time_time_def error_log_def stages_started_def)

lemma run_except_frame:
  "db (run_except env e w) = db w"
  "db_calls (run_except env e w) = db_calls w"
  "held (run_except env e w) = held w"
  "summary_file (run_except env e w) = summary_file w"
  "error_log (run_except env e w) = error_log w @ [(''pipeline'', exc_str e)]"
  "stages_started (run_except env e w) = stages_started w"
  "posts_collected (metrics (run_except env e w)) = posts_collected (metrics w)"
  "posts_processed (metrics (run_except env e w)) = posts_processed (metrics w)"
  "posts_stored (metrics (run_except env e w)) = posts_stored (metrics w)"
  "alerts_generated (metrics (run_except env e w)) = alerts_generated (metrics w)"
  "start_time (metrics (run_except env e w)) = start_time (metrics w)"
  "set (log (run_except env e w)) \<supseteq> set (log w)"
  by (auto simp: run_except_def)

lemma run_finally_frame:
  "db (run_finally env w) = db w"
  "db_calls (run_finally env w) = db_calls w"
  "held (run_finally env w) = held w"
  "error_log (run_finally env w) = error_log w"
  "stages_started (run_finally env w) = stages_started w"
  "posts_collected (metrics (run_finally env w)) = posts_collected (metrics w)"
  "posts_processed (metrics (run_finally env w)) = posts_processed (metrics w)"
  "posts_stored (metrics (run_finally env w)) = posts_stored (metrics w)"
  "alerts_generated (metrics (run_finally env w)) = alerts_generated (metrics w)"
  "set (log (run_finally env w)) \<supseteq> set (log w)"
  by (auto simp: run_finally_def print_summary_def time_time_def error_log_def
      stages_started_def Let_def)

text \<open>What the \<open>finally\<close> clause does.\<close>

lemma run_finally_finalizes:
  "end_time (metrics (run_finally env w)) = Some (clock env (ticks w))"
  "ticks (run_finally env w) = Suc (ticks w)"
  "summary_file (run_finally env w) = Some (get_summary (metrics (run_finally env w)))"
  "log (run_finally env w) = log w @ summary_lines (get_summary (metrics (run_finally env w)))"
  by (simp_all add: run_finally_def print_summary_def time_time_def Let_def)

subsection \<open>\<open>run\<close>, outcome by outcome\<close>

lemma run_ends_in_finally: "\<exists>w1. snd (run env cfg w) = run_finally env w1"
  by (auto simp: run_def split: prod.splits option.splits)

lemma process_data_Inl:
  "process_data env raw_posts w = (Inl e, w1) \<longleftrightarrow>
     process_data_guarded env raw_posts w = (Inl e, w1)
     \<or> (\<exists>processed_objects. process_data_guarded env raw_posts w = (Inr processed_objects, w1)
            \<and> comprehension (asdict env) processed_objects = Inl e)"
  by (auto simp: process_data_def split: prod.splits sum.splits)

lemma process_data_Inr:
  "process_data env raw_posts w = (Inr processed_posts, w1) \<longleftrightarrow>
     (\<exists>processed_objects. process_data_guarded env raw_posts w = (Inr processed_objects, w1)
        \<and> comprehension (asdict env) processed_objects = Inr processed_posts)"
  by (auto simp: process_data_def split: prod.splits sum.splits)

lemma run_raises_fatal: "fst (run env cfg w) = map_option snd (fatal_stage (run_outcome env cfg w))"
  by (auto simp: run_def run_try_def run_outcome_def process_data_def Let_def
      split: prod.splits option.splits sum.splits)

lemma outcome_NoPostsCollected:
  assumes "run_outcome env cfg w = NoPostsCollected"
  obtains w1 where "collect_data env cfg (run_start env w) = (Inr [], w1)"
    and "run env cfg w =
           (None, run_finally env (logger WARNING [T ''No posts collected, exiting pipeline''] w1))"
  using assms
  by (auto simp: run_def run_try_def run_outcome_def Let_def
      split: prod.splits option.splits sum.splits if_splits)

lemma outcome_CollectionFailed:
  assumes "run_outcome env cfg w = CollectionFailed e"
  obtains w1 where "collect_data env cfg (run_start env w) = (Inl e, w1)"
    and "run env cfg w = (Some e, run_finally env (run_except env e w1))"
  using assms
  by (auto simp: run_def run_try_def run_outcome_def Let_def
      split: prod.splits option.splits sum.splits if_splits)

lemma outcome_ProcessingFailed:
  assumes "run_outcome env cfg w = ProcessingFailed e"
  obtains raw_posts w1 w2 where "collect_data env cfg (run_start env w) = (Inr raw_posts, w1)"
    and "raw_posts \<noteq> []"
    and "process_data_guarded env raw_posts w1 = (Inl e, w2)"
    and "run env cfg w = (Some e, run_finally env (run_except env e w2))"
  using assms
  by (auto simp: run_def run_try_def run_outcome_def process_data_def Let_def
      split: prod.splits option.splits sum.splits if_splits)


lemma outcome_StorageFailed:
  assumes "run_outcome env cfg w = StorageFailed e"
  obtains raw_posts w1 processed_posts w2 w3 where
        "collect_data env cfg (run_start env w) = (Inr raw_posts, w1)"
    and "raw_posts \<noteq> []"
    and "process_data env raw_posts w1 = (Inr processed_posts, w2)"
    and "processed_posts \<noteq> []"
    and "store_data env cfg raw_posts processed_posts w2 = (Some e, w3)"
    and "run env cfg w = (Some e, run_finally env (run_except env e w3))"
  using assms
  by (auto simp: run_def run_try_def run_outcome_def process_data_def Let_def
      split: prod.splits option.splits sum.splits if_splits)

lemma outcome_Completed:
  assumes "run_outcome env cfg w = Completed a"
  obtains raw_posts w1 processed_posts w2 w3 w4 where
        "collect_data env cfg (run_start env w) = (Inr raw_posts, w1)"
    and "raw_posts \<noteq> []"
    and "process_data env raw_posts w1 = (Inr processed_posts, w2)"
    and "processed_posts \<noteq> []"
    and "store_data env cfg raw_posts processed_posts w2 = (None, w3)"
    and "generate_alerts_caught env cfg processed_posts w3 = (a, w4)"
    and "run env cfg w =
           (None, run_finally env
              (logger INFO [T ''===='']
                 (logger INFO [T ''PIPELINE COMPLETED SUCCESSFULLY'']
                    (logger INFO [T ''====''] (record_metrics env w4)))))"
proof -
  from assms obtain raw_posts w1 processed_posts w2 w3 where
    c: "collect_data env cfg (run_start env w) = (Inr raw_posts, w1)" "raw_posts \<noteq> []" and
    p: "process_data env raw_posts w1 = (Inr processed_posts, w2)" "processed_posts \<noteq> []" and
    s: "store_data env cfg raw_posts processed_posts w2 = (None, w3)" and
    a: "a = fst (generate_alerts_caught env cfg processed_posts w3)"
    by (auto simp: run_outcome_def process_data_def Let_def
        split: prod.splits option.splits sum.splits if_splits)
  define w4 where "w4 = snd (generate_alerts_caught env cfg processed_posts w3)"
  have g: "generate_alerts_caught env cfg processed_posts w3 = (a, w4)"
    by (simp add: a w4_def)
  have "run env cfg w =
           (None, run_finally env
              (logger INFO [T ''===='']
                 (logger INFO [T ''PIPELINE COMPLETED SUCCESSFULLY'']
                    (logger INFO [T ''====''] (record_metrics env w4)))))"
    using c p s by (simp add: run_def run_try_def generate_alerts_def w4_def Let_def)
  with c p s g show thesis
    by (rule that)
qed

text \<open>The outcomes mean what their names say.\<close>

lemma run_outcome_intros:
  "collect_data env cfg (run_start env w) = (Inl e, w1)
   \<Longrightarrow> run_outcome env cfg w = CollectionFailed e"
  "collect_data env cfg (run_start env w) = (Inr [], w1)
   \<Longrightarrow> run_outcome env cfg w = NoPostsCollected"
  "collect_data env cfg (run_start env w) = (Inr raw_posts, w1) \<Longrightarrow> raw_posts \<noteq> []
   \<Longrightarrow> process_data_guarded env raw_posts w1 = (Inl e, w2)
   \<Longrightarrow> run_outcome env cfg w = ProcessingFailed e"
  "collect_data env cfg (run_start env w) = (Inr raw_posts, w1) \<Longrightarrow> raw_posts \<noteq> []
   \<Longrightarrow> process_data_guarded env raw_posts w1 = (Inr processed_objects, w2)
   \<Longrightarrow> comprehension (asdict env) processed_objects = Inl e
   \<Longrightarrow> run_outcome env cfg w = ConversionFailed e"
  "collect_data env cfg (run_start env w) = (Inr raw_posts, w1) \<Longrightarrow> raw_posts \<noteq> []
   \<Longrightarrow> process_data env raw_posts w1 = (Inr [], w2)
   \<Longrightarrow> run_outcome env cfg w = NoPostsProcessed"
  "collect_data env cfg (run_start env w) = (Inr raw_posts, w1) \<Longrightarrow> raw_posts \<noteq> []
   \<Longrightarrow> process_data env raw_posts w1 = (Inr processed_posts, w2) \<Longrightarrow> processed_posts \<noteq> []
   \<Longrightarrow> store_data env cfg raw_posts processed_posts w2 = (Some e, w3)
   \<Longrightarrow> run_outcome env cfg w = StorageFailed e"
  "collect_data env cfg (run_start env w) = (Inr raw_posts, w1) \<Longrightarrow> raw_posts \<noteq> []
   \<Longrightarrow> process_data env raw_posts w1 = (Inr processed_posts, w2) \<Longrightarrow> processed_posts \<noteq> []
   \<Longrightarrow> store_data env cfg raw_posts processed_posts w2 = (None, w3)
   \<Longrightarrow> generate_alerts_caught env cfg processed_posts w3 = (a, w4)
   \<Longrightarrow> run_outcome env cfg w = Completed a"
  by (auto simp: run_outcome_def process_data_Inr)

subsection \<open>Finalization\<close>

lemma run_finalized:
  "end_time (metrics (snd (run env cfg w))) = Some (clock env (ticks (snd (run env cfg w)) - 1))"
  "summary_file (snd (run env cfg w)) = Some (get_summary (metrics (snd (run env cfg w))))"
  "suffix (summary_lines (get_summary (metrics (snd (run env cfg w)))))
          (log (snd (run env cfg w)))"
proof -
  obtain w1 where "snd (run env cfg w) = run_finally env w1"
    using run_ends_in_finally by blast
  then show
    "end_time (metrics (snd (run env cfg w))) = Some (clock env (ticks (snd (run env cfg w)) - 1))"
    "summary_file (snd (run env cfg w)) = Some (get_summary (metrics (snd (run env cfg w))))"
    "suffix (summary_lines (get_summary (metrics (snd (run env cfg w)))))
            (log (snd (run env cfg w)))"
    by (simp_all add: run_finally_finalizes suffix_def)
qed

text \<open>
  The start time that \<open>run\<close> stamps before its \<open>try\<close> block is never changed
  by a stage.
\<close>

lemma run_try_start_time:
  "start_time (metrics (snd (run_try env cfg w))) = start_time (metrics w)"
proof -
  obtain r1 w1 where c: "collect_data env cfg w = (r1, w1)"
    by (cases "collect_data env cfg w")
  note fc = collect_data_frame [OF c]
  show ?thesis
  proof (cases r1)
    case (Inl e)
    with c fc show ?thesis
      by (simp add: run_try_def)
  next
    case r1: (Inr raw_posts)
    obtain r2 w2 where p: "process_data env raw_posts w1 = (r2, w2)"
      by (cases "process_data env raw_posts w1")
    note fp = process_data_frame [OF p]
    show ?thesis
    proof (cases r2)
      case (Inl e)
      with c r1 p fc fp show ?thesis
        by (simp add: run_try_def)
    next
      case r2: (Inr processed_posts)
      obtain r3 w3 where s: "store_data env cfg raw_posts processed_posts w2 = (r3, w3)"
        by (cases "store_data env cfg raw_posts processed_posts w2")
      note fs = store_data_frame [OF s]
      obtain a w4 where g: "generate_alerts_caught env cfg processed_posts w3 = (a, w4)"
        by (cases "generate_alerts_caught env cfg processed_posts w3")
      note fg = generate_alerts_caught_frame [OF g]
      from c r1 p r2 s g fc fp fs fg show ?thesis
        by (cases r3) (simp_all add: run_try_def generate_alerts_def record_metrics_frame Let_def)
    qed
  qed
qed

lemma run_start_time:
  "start_time (metrics (snd (run env cfg w))) = Some (clock env (ticks w))"
proof -
  have "start_time (metrics (run_finally env w1)) = start_time (metrics w1)" for w1
    by (simp add: run_finally_def print_summary_def time_time_def Let_def)
  with run_try_start_time [of env cfg "run_start env w"] show ?thesis
    by (auto simp: run_def run_start_frame run_except_frame split: prod.splits option.splits)
qed

text \<open>
  C6. Whatever the stages do, \<open>run\<close> ends in its \<open>finally\<close> clause, whether it
  returns or raises. In the state it ends in: the start time is the clock reading
  taken when \<open>run\<close> began and the end time is the last clock reading taken; the
  file \<open>pipeline_summary.json\<close> holds the summary computed from the final metrics
  (the execution time is end minus start, or 0 when one of the two readings is 0; the
  four counters; the number of errors and the errors; the duration of every stage
  that was started, 0 when the stage was not ended); and the last records of the log
  are the lines of that summary: the heading, the execution time, the four counters,
  the number of errors, one line for each stage, the errors one by one under
  \<open>Errors:\<close> when there are any, and the closing rule.
\<close>

theorem finalization_always_runs:
  "(let W = snd (run env cfg w);
        m = metrics W;
        started = clock env (ticks w);
        ended = clock env (ticks W - 1)
    in start_time m = Some started
     \<and> end_time m = Some ended
     \<and> summary_file W =
         Some \<lparr>s_execution_time = (if ended \<noteq> 0 \<and> started \<noteq> 0 then ended - started else 0),
               s_start_time = Some started,
               s_end_time = Some ended,
               s_posts_collected = posts_collected m,
               s_posts_processed = posts_processed m,
               s_posts_stored = posts_stored m,
               s_alerts_generated = alerts_generated m,
               s_error_count = length (errors m),
               s_errors = errors m,
               s_stage_durations =
                 map (\<lambda>(stage, timing).
                        (stage, case t_duration timing of None \<Rightarrow> 0 | Some d \<Rightarrow> d))
                     (stage_durations m)\<rparr>
     \<and> suffix
         ([(INFO, [T ''===='']),
           (INFO, [T ''PIPELINE EXECUTION SUMMARY'']),
           (INFO, [T ''===='']),
           (INFO, [T ''Total Execution Time: '',
                   R (if ended \<noteq> 0 \<and> started \<noteq> 0 then ended - started else 0),
                   T '' seconds'']),
           (INFO, [T ''Posts Collected: '', I (posts_collected m)]),
           (INFO, [T ''Posts Processed: '', I (posts_processed m)]),
           (INFO, [T ''Posts Stored: '', I (posts_stored m)]),
           (INFO, [T ''Alerts Generated: '', I (alerts_generated m)]),
           (INFO, [T ''Errors: '', I (int (length (errors m)))]),
           (INFO, [T ''Stage Durations:''])]
          @ map (\<lambda>(stage, timing).
                   (INFO, [T ''  '', T stage, T '': '',
                           R (case t_duration timing of None \<Rightarrow> 0 | Some d \<Rightarrow> d), T ''s'']))
                (stage_durations m)
          @ (if errors m \<noteq> []
             then (INFO, [T ''Errors:'']) #
                  map (\<lambda>error. (INFO, [T ''  ['', T (e_stage error), T ''] '', T (e_error error)]))
                      (errors m)
             else [])
          @ [(INFO, [T ''====''])])
         (log W))"
proof -
  define W where "W = snd (run env cfg w)"
  define m where "m = metrics W"
  have st: "start_time m = Some (clock env (ticks w))"
    by (simp add: m_def W_def run_start_time)
  have en: "end_time m = Some (clock env (ticks W - 1))"
    using run_finalized(1) [of env cfg w] by (simp add: m_def W_def)
  have td: "total_duration m =
      (if clock env (ticks W - 1) \<noteq> 0 \<and> clock env (ticks w) \<noteq> 0
       then clock env (ticks W - 1) - clock env (ticks w) else 0)"
    by (simp add: total_duration_def st en)
  have sf: "summary_file W = Some (get_summary m)"
    using run_finalized(2) [of env cfg w] by (simp add: m_def W_def)
  have lg: "suffix (summary_lines (get_summary m)) (log W)"
    using run_finalized(3) [of env cfg w] by (simp add: m_def W_def)
  have gs: "get_summary m =
         \<lparr>s_execution_time =
                 (if clock env (ticks W - 1) \<noteq> 0 \<and> clock env (ticks w) \<noteq> 0
                  then clock env (ticks W - 1) - clock env (ticks w) else 0),
               s_start_time = Some (clock env (ticks w)),
               s_end_time = Some (clock env (ticks W - 1)),
               s_posts_collected = posts_collected m,
               s_posts_processed = posts_processed m,
               s_posts_stored = posts_stored m,
               s_alerts_generated = alerts_generated m,
               s_error_count = length (errors m),
               s_errors = errors m,
               s_stage_durations =
                 map (\<lambda>(stage, timing).
                        (stage, case t_duration timing of None \<Rightarrow> 0 | Some d \<Rightarrow> d))
                     (stage_durations m)\<rparr>"
    by (simp add: get_summary_def td st en)
  have sl: "summary_lines (get_summary m) =
         [(INFO, [T ''===='']),
           (INFO, [T ''PIPELINE EXECUTION SUMMARY'']),
           (INFO, [T ''===='']),
           (INFO, [T ''Total Execution Time: '',
                   R (if clock env (ticks W - 1) \<noteq> 0 \<and> clock env (ticks w) \<noteq> 0
                      then clock env (ticks W - 1) - clock env (ticks w) else 0),
                   T '' seconds'']),
           (INFO, [T ''Posts Collected: '', I (posts_collected m)]),
           (INFO, [T ''Posts Processed: '', I (posts_processed m)]),
           (INFO, [T ''Posts Stored: '', I (posts_stored m)]),
           (INFO, [T ''Alerts Generated: '', I (alerts_generated m)]),
           (INFO, [T ''Errors: '', I (int (length (errors m)))]),
           (INFO, [T ''Stage Durations:''])]
          @ map (\<lambda>(stage, timing).
                   (INFO, [T ''  '', T stage, T '': '',
                           R (case t_duration timing of None \<Rightarrow> 0 | Some d \<Rightarrow> d), T ''s'']))
                (stage_durations m)
          @ (if errors m \<noteq> []
             then (INFO, [T ''Errors:'']) #
                  map (\<lambda>error. (INFO, [T ''  ['', T (e_stage error), T ''] '', T (e_error error)]))
                      (errors m)
             else [])
          @ [(INFO, [T ''====''])]"
    unfolding gs by (simp add: summary_lines_def split_def comp_def)
  note sf' = sf [unfolded gs] and lg' = lg [unfolded sl]
  show ?thesis
    unfolding Let_def W_def [symmetric] m_def [symmetric]
    by (intro conjI st en sf' lg')
qed

subsection \<open>\<open>main\<close>\<close>

lemma init_schema_metrics: "metrics (snd (init_schema env w)) = metrics w"
  by (auto simp: init_schema_def init_schema_try_def db_op_defs Let_def
      split: option.splits if_splits prod.splits sum.splits)

lemma DatabaseHandler_init_metrics: "metrics (snd (DatabaseHandler_init env w)) = metrics w"
proof -
  have "metrics (snd (init_schema env
          (logger INFO [T ''Database connection pool initialized''] (w\<lparr>held := 0\<rparr>)))) = metrics w"
    by (simp add: init_schema_metrics)
  then show ?thesis
    by (auto simp: DatabaseHandler_init_def split: option.splits prod.splits)
qed

lemma pipeline_init_metrics:
  assumes "pipeline_init env cfg wa = (None, w)"
  shows "metrics w = PipelineMetrics_init"
proof -
  define wb where "wb = wa\<lparr>metrics := PipelineMetrics_init\<rparr>"
  have "metrics (snd (DatabaseHandler_init env wb)) = PipelineMetrics_init"
    by (simp add: DatabaseHandler_init_metrics wb_def)
  with assms show ?thesis
    by (auto simp: pipeline_init_def pipeline_init_try_def wb_def
        split: option.splits prod.splits)
qed

lemma started_fresh:
  "started env w0 = Some (cfg, w) \<Longrightarrow> metrics w = PipelineMetrics_init"
  by (auto simp: started_def pipeline_init_metrics split: prod.splits sum.splits option.splits)

lemma main_started:
  "started env w0 = Some (cfg, w)
   \<Longrightarrow> main env w0 = (case run env cfg w of
                        (Some e, w') \<Rightarrow> main_except e w'
                      | (None, w') \<Rightarrow> (0, w'))"
  by (auto simp: started_def main_def split: prod.splits sum.splits option.splits)

lemma main_except_frame:
  "fst (main_except e w) = 1"
  "db (snd (main_except e w)) = db w"
  "db_calls (snd (main_except e w)) = db_calls w"
  "metrics (snd (main_except e w)) = metrics w"
  "summary_file (snd (main_except e w)) = summary_file w"
  "error_log (snd (main_except e w)) = error_log w"
  "stages_started (snd (main_except e w)) = stages_started w"
  "set (log (snd (main_except e w))) \<supseteq> set (log w)"
  by (auto simp: main_except_def error_log_def stages_started_def)

lemma error_log_Nil: "error_log w = [] \<longleftrightarrow> errors (metrics w) = []"
  by (simp add: error_log_def)

lemma fresh_observations:
  "metrics w = PipelineMetrics_init
   \<Longrightarrow> error_log w = [] \<and> stages_started w = [] \<and> posts_collected (metrics w) = 0
       \<and> posts_processed (metrics w) = 0 \<and> posts_stored (metrics w) = 0
       \<and> alerts_generated (metrics w) = 0"
  by (simp add: PipelineMetrics_init_def error_log_def stages_started_def)

lemma main_exit_code:
  assumes "started env w0 = Some (cfg, w)"
  shows "fst (main env w0) = (if fatal_stage (run_outcome env cfg w) = None then 0 else 1)"
proof -
  have "fst (run env cfg w) = map_option snd (fatal_stage (run_outcome env cfg w))"
    by (rule run_raises_fatal)
  then show ?thesis
    using main_started [OF assms]
    by (cases "run env cfg w"; cases "fatal_stage (run_outcome env cfg w)")
       (auto simp: main_except_def)
qed

section \<open>The orchestrator: the stage policy\<close>

subsection \<open>A fatal stage\<close>

text \<open>
  When the handler of the collection, the processing or the storage stage catches an
  exception, \<open>run\<close> raises that exception, and the one failure has been recorded
  twice: by the handler of the stage under the stage's name, and by the handler of
  \<open>run\<close> under \<open>pipeline\<close>. The summary's \<open>error_count\<close> has grown by 2.
\<close>

lemma handled_failure_is_recorded_twice:
  assumes "handled_stage (run_outcome env cfg w) = Some (stage, e)"
  shows "fst (run env cfg w) = Some e
         \<and> error_log (snd (run env cfg w)) =
             error_log w @ [(stage, exc_str e), (''pipeline'', exc_str e)]
         \<and> s_error_count (get_summary (metrics (snd (run env cfg w)))) =
             length (errors (metrics w)) + 2
         \<and> summary_file (snd (run env cfg w)) =
             Some (get_summary (metrics (snd (run env cfg w))))"
proof -
  have el: "error_log (snd (run env cfg w)) =
      error_log w @ [(stage, exc_str e), (''pipeline'', exc_str e)]"
  proof (cases "run_outcome env cfg w")
    case (CollectionFailed e')
    with assms have [simp]: "stage = ''collection''" "e' = e" by simp_all
    from CollectionFailed obtain w1 where
      c: "collect_data env cfg (run_start env w) = (Inl e, w1)" and
      r: "run env cfg w = (Some e, run_finally env (run_except env e w1))"
      by (auto elim: outcome_CollectionFailed)
    from collect_data_frame [OF c] r show ?thesis
      by (simp add: run_finally_frame run_except_frame run_start_frame)
  next
    case (ProcessingFailed e')
    with assms have [simp]: "stage = ''processing''" "e' = e" by simp_all
    from ProcessingFailed obtain raw_posts w1 w2 where
      c: "collect_data env cfg (run_start env w) = (Inr raw_posts, w1)" and
      p: "process_data_guarded env raw_posts w1 = (Inl e, w2)" and
      r: "run env cfg w = (Some e, run_finally env (run_except env e w2))"
      by (auto elim: outcome_ProcessingFailed)
    from collect_data_frame [OF c] process_data_guarded_frame [OF p] r show ?thesis
      by (simp add: run_finally_frame run_except_frame run_start_frame)
  next
    case (StorageFailed e')
    with assms have [simp]: "stage = ''storage''" "e' = e" by simp_all
    from StorageFailed obtain raw_posts w1 processed_posts w2 w3 where
      c: "collect_data env cfg (run_start env w) = (Inr raw_posts, w1)" and
      p: "process_data env raw_posts w1 = (Inr processed_posts, w2)" and
      s: "store_data env cfg raw_posts processed_posts w2 = (Some e, w3)" and
      r: "run env cfg w = (Some e, run_finally env (run_except env e w3))"
      by (auto elim: outcome_StorageFailed)
    from collect_data_frame [OF c] process_data_frame [OF p] store_data_frame [OF s] r
    show ?thesis
      by (simp add: run_finally_frame run_except_frame run_start_frame)
  qed (use assms in simp_all)
  from el have "length (error_log (snd (run env cfg w))) = length (error_log w) + 2"
    by simp
  then have cnt: "s_error_count (get_summary (metrics (snd (run env cfg w)))) =
      length (errors (metrics w)) + 2"
    by (simp add: error_log_def get_summary_def)
  from assms have "fatal_stage (run_outcome env cfg w) = Some (stage, e)"
    by (cases "run_outcome env cfg w") simp_all
  then have "fst (run env cfg w) = Some e"
    by (simp add: run_raises_fatal)
  with el cnt run_finalized(2) [of env cfg w] show ?thesis
    by simp
qed


text \<open>
  C1. In a process whose configuration loads and whose pipeline is built: when the
  storage stage raises, \<open>run\<close> raises the same exception after finalization (the
  summary file holds the final summary), the error is in the summary (once as
  \<open>storage\<close>, once as \<open>pipeline\<close>), the alerting stage was never started, at
  most the two persistence calls of the storage stage were made, no alert or metric
  row was written (the state \<open>run\<close> ends in is the state the storage stage left,
  changed only by the handler and the \<open>finally\<close> clause of \<open>run\<close>), and
  \<open>main\<close> returns 1. The exit code is 0 exactly when no fatal
  stage raised, that is for a completed run and for a run that found or processed no
  posts.
\<close>

theorem storage_failure_aborts_the_run:
  assumes "started env w0 = Some (cfg, w)"
  shows "(run_outcome env cfg w = StorageFailed e \<longrightarrow>
            fst (run env cfg w) = Some e
          \<and> fst (main env w0) = 1
          \<and> error_log (snd (main env w0)) = [(''storage'', exc_str e), (''pipeline'', exc_str e)]
          \<and> summary_file (snd (main env w0)) = Some (get_summary (metrics (snd (main env w0))))
          \<and> s_error_count (get_summary (metrics (snd (main env w0)))) = 2
          \<and> stages_started (snd (main env w0)) = [''collection'', ''processing'', ''storage'']
          \<and> alerts_generated (metrics (snd (main env w0))) = 0
          \<and> db_calls (snd (main env w0)) \<le> db_calls w + 2
          \<and> tbl_alerts (db (snd (main env w0))) = tbl_alerts (db w)
          \<and> tbl_pipeline_metrics (db (snd (main env w0))) = tbl_pipeline_metrics (db w)
          \<and> (\<exists>raw_posts processed_posts w2 w3.
                 store_data env cfg raw_posts processed_posts w2 = (Some e, w3)
               \<and> snd (run env cfg w) = run_finally env (run_except env e w3)))
         \<and> fst (main env w0) = (if fatal_stage (run_outcome env cfg w) = None then 0 else 1)"
proof -
  note fresh = fresh_observations [OF started_fresh [OF assms]]
  have "fst (run env cfg w) = Some e
          \<and> fst (main env w0) = 1
          \<and> error_log (snd (main env w0)) = [(''storage'', exc_str e), (''pipeline'', exc_str e)]
          \<and> summary_file (snd (main env w0)) = Some (get_summary (metrics (snd (main env w0))))
          \<and> s_error_count (get_summary (metrics (snd (main env w0)))) = 2
          \<and> stages_started (snd (main env w0)) = [''collection'', ''processing'', ''storage'']
          \<and> alerts_generated (metrics (snd (main env w0))) = 0
          \<and> db_calls (snd (main env w0)) \<le> db_calls w + 2
          \<and> tbl_alerts (db (snd (main env w0))) = tbl_alerts (db w)
          \<and> tbl_pipeline_metrics (db (snd (main env w0))) = tbl_pipeline_metrics (db w)
          \<and> (\<exists>raw_posts processed_posts w2 w3.
                 store_data env cfg raw_posts processed_posts w2 = (Some e, w3)
               \<and> snd (run env cfg w) = run_finally env (run_except env e w3))"
    if sf: "run_outcome env cfg w = StorageFailed e"
  proof -
    from sf obtain raw_posts w1 processed_posts w2 w3 where
      c: "collect_data env cfg (run_start env w) = (Inr raw_posts, w1)" and
      p: "process_data env raw_posts w1 = (Inr processed_posts, w2)" and
      s: "store_data env cfg raw_posts processed_posts w2 = (Some e, w3)" and
      r: "run env cfg w = (Some e, run_finally env (run_except env e w3))"
      by (auto elim: outcome_StorageFailed)
    define W where "W = snd (run env cfg w)"
    from r have m: "main env w0 = main_except e W"
      using main_started [OF assms] by (simp add: W_def)
    note fc = collect_data_frame [OF c] and fp = process_data_frame [OF p]
      and fs = store_data_frame [OF s]
    have W: "W = run_finally env (run_except env e w3)"
      using r by (simp add: W_def)
    have el: "error_log W = [(''storage'', exc_str e), (''pipeline'', exc_str e)]"
      using fc fp fs fresh by (simp add: W run_finally_frame run_except_frame run_start_frame)
    then have "length (error_log W) = 2" by simp
    then have cnt: "s_error_count (get_summary (metrics W)) = 2"
      by (simp add: error_log_def get_summary_def)
    have st: "stages_started W = [''collection'', ''processing'', ''storage'']"
      using fc fp fs fresh by (simp add: W run_finally_frame run_except_frame run_start_frame)
    have ag: "alerts_generated (metrics W) = 0"
      using fc fp fs fresh by (simp add: W run_finally_frame run_except_frame run_start_frame)
    have dc: "db_calls W \<le> db_calls w + 2"
      using fc fp fs by (simp add: W run_finally_frame run_except_frame run_start_frame)
    have tb: "tbl_alerts (db W) = tbl_alerts (db w)"
      "tbl_pipeline_metrics (db W) = tbl_pipeline_metrics (db w)"
      using fc fp fs by (simp_all add: W run_finally_frame run_except_frame run_start_frame)
    have sm: "summary_file W = Some (get_summary (metrics W))"
      using run_finalized(2) [of env cfg w] by (simp add: W_def)
    have ex: "\<exists>raw_posts processed_posts w2 w3.
        store_data env cfg raw_posts processed_posts w2 = (Some e, w3)
        \<and> snd (run env cfg w) = run_finally env (run_except env e w3)"
      using s r by auto
    from r el cnt st ag dc tb sm ex show ?thesis
      by (simp add: m main_except_frame)
  qed
  with main_exit_code [OF assms] show ?thesis
    by blast
qed

subsection \<open>No posts\<close>

text \<open>
  C5. In a process whose configuration loads and whose pipeline is built: when the
  collection stage returns an empty list, \<open>run\<close> returns normally and \<open>main\<close>
  returns 0; the summary is logged and written, with \<open>posts_collected = 0\<close>,
  \<open>posts_processed = 0\<close> and no error; no stage after collection was started, no
  persistence call was made and the store is as it was.
\<close>

theorem zero_posts_is_a_successful_noop:
  assumes "started env w0 = Some (cfg, w)"
      and "run_outcome env cfg w = NoPostsCollected"
  shows "fst (run env cfg w) = None
         \<and> main env w0 = (0, snd (run env cfg w))
         \<and> summary_file (snd (main env w0)) = Some (get_summary (metrics (snd (main env w0))))
         \<and> suffix (summary_lines (get_summary (metrics (snd (main env w0)))))
                    (log (snd (main env w0)))
         \<and> (WARNING, [T ''No posts collected, exiting pipeline'']) \<in> set (log (snd (main env w0)))
         \<and> s_posts_collected (get_summary (metrics (snd (main env w0)))) = 0
         \<and> s_posts_processed (get_summary (metrics (snd (main env w0)))) = 0
         \<and> s_error_count (get_summary (metrics (snd (main env w0)))) = 0
         \<and> stages_started (snd (main env w0)) = [''collection'']
         \<and> db (snd (main env w0)) = db w
         \<and> db_calls (snd (main env w0)) = db_calls w"
proof -
  note fresh = fresh_observations [OF started_fresh [OF assms(1)]]
  from assms(2) obtain w1 where
    c: "collect_data env cfg (run_start env w) = (Inr [], w1)" and
    r: "run env cfg w =
          (None, run_finally env (logger WARNING [T ''No posts collected, exiting pipeline''] w1))"
    by (auto elim: outcome_NoPostsCollected)
  from r have m: "main env w0 = (0, snd (run env cfg w))"
    using main_started [OF assms(1)] by simp
  note f = collect_data_frame [OF c]
  have el: "error_log (snd (run env cfg w)) = []"
    using f r fresh by (simp add: run_finally_frame run_start_frame)
  have "s_error_count (get_summary (metrics (snd (run env cfg w)))) = 0"
    using el by (simp add: get_summary_def error_log_Nil)
  moreover have "(WARNING, [T ''No posts collected, exiting pipeline''])
      \<in> set (log (snd (run env cfg w)))"
    using r run_finally_frame(10) [of "logger WARNING [T ''No posts collected, exiting pipeline''] w1" env]
    by auto
  moreover have "s_posts_collected (get_summary (metrics (snd (run env cfg w)))) = 0"
    "s_posts_processed (get_summary (metrics (snd (run env cfg w)))) = 0"
    "stages_started (snd (run env cfg w)) = [''collection'']"
    "db (snd (run env cfg w)) = db w"
    "db_calls (snd (run env cfg w)) = db_calls w"
    using f r fresh by (simp_all add: get_summary_def run_finally_frame run_start_frame)
  ultimately show ?thesis
    using r m run_finalized [of env cfg w] by simp
qed

subsection \<open>The alerting stage\<close>

text \<open>
  C2. In a process whose configuration loads and whose pipeline is built: when the
  run reaches the alerting stage and an exception is raised inside it, the handler of
  the stage catches it, logs it and appends it to the errors of the summary (the only
  error of the run); \<open>run\<close> does not raise, the metrics stage runs afterwards (its
  banner is logged and at least one \<open>record_metric\<close> call follows the two calls
  of the storage stage), the run is logged as completed, and \<open>main\<close> returns 0.
  When the store works, the five metrics of the run are the last rows of
  \<open>pipeline_metrics\<close>, with an \<open>error_count\<close> of 1.
\<close>

theorem alert_failure_is_not_fatal:
  assumes "started env w0 = Some (cfg, w)"
      and "run_outcome env cfg w = Completed (Some e)"
  shows "fst (run env cfg w) = None
         \<and> main env w0 = (0, snd (run env cfg w))
         \<and> error_log (snd (main env w0)) = [(''alerts'', exc_str e)]
         \<and> s_error_count (get_summary (metrics (snd (main env w0)))) = 1
         \<and> summary_file (snd (main env w0)) = Some (get_summary (metrics (snd (main env w0))))
         \<and> (ERROR, [T ''Alert generation failed: '', E e]) \<in> set (log (snd (main env w0)))
         \<and> (INFO, [T ''STAGE 5: Recording Metrics'']) \<in> set (log (snd (main env w0)))
         \<and> (INFO, [T ''PIPELINE COMPLETED SUCCESSFULLY'']) \<in> set (log (snd (main env w0)))
         \<and> db_calls w + 3 \<le> db_calls (snd (main env w0))
         \<and> stages_started (snd (main env w0)) =
             [''collection'', ''processing'', ''storage'', ''alerts'']
         \<and> ((\<forall>n. fault_plan env n = no_faults)
              \<and> (\<forall>v. row_error env ''pipeline_metrics'' v = None)
              \<and> held w < maxconn \<longrightarrow>
                suffix [PStr ''posts_collected'', PStr ''posts_processed'',
                        PStr ''alerts_generated'', PStr ''execution_time'', PStr ''error_count'']
                  (map first_column (tbl_pipeline_metrics (db (snd (main env w0)))))
              \<and> last (tbl_pipeline_metrics (db (snd (main env w0)))) =
                  [PStr ''error_count'', PInt 1, Json (PDict [])])"
proof -
  note fresh = fresh_observations [OF started_fresh [OF assms(1)]]
  from assms(2) obtain raw_posts w1 processed_posts w2 w3 w4 where
    c: "collect_data env cfg (run_start env w) = (Inr raw_posts, w1)" and
    p: "process_data env raw_posts w1 = (Inr processed_posts, w2)" and
    s: "store_data env cfg raw_posts processed_posts w2 = (None, w3)" and
    g: "generate_alerts_caught env cfg processed_posts w3 = (Some e, w4)" and
    r: "run env cfg w =
           (None, run_finally env
              (logger INFO [T ''===='']
                 (logger INFO [T ''PIPELINE COMPLETED SUCCESSFULLY'']
                    (logger INFO [T ''====''] (record_metrics env w4)))))"
    by (auto elim: outcome_Completed)
  define w5 where "w5 = record_metrics env w4"
  define w6 where "w6 = logger INFO [T ''===='']
                 (logger INFO [T ''PIPELINE COMPLETED SUCCESSFULLY'']
                    (logger INFO [T ''====''] w5))"
  define W where "W = snd (run env cfg w)"
  have W: "W = run_finally env w6"
    using r by (simp add: W_def w6_def w5_def)
  from r have m: "main env w0 = (0, W)"
    using main_started [OF assms(1)] by (simp add: W_def)
  note fc = collect_data_frame [OF c] and fp = process_data_frame [OF p]
    and fs = store_data_frame [OF s] and fg = generate_alerts_caught_frame [OF g]
    and fm = record_metrics_frame [where env = env and w = w4, folded w5_def]
  have el4: "error_log w4 = [(''alerts'', exc_str e)]"
    using fc fp fs fg fresh by (simp add: run_start_frame)
  have "error_log w5 = error_log w4" "stages_started w5 = stages_started w4"
    using fm(1) by (simp_all add: error_log_def stages_started_def)
  note w5 = this
  have el: "error_log W = [(''alerts'', exc_str e)]"
    using el4 w5 by (simp add: W w6_def run_finally_frame)
  then have "length (error_log W) = 1" by simp
  then have cnt: "s_error_count (get_summary (metrics W)) = 1"
    by (simp add: error_log_def get_summary_def)
  have st4: "stages_started w4 = [''collection'', ''processing'', ''storage'', ''alerts'']"
    using fc fp fs fg fresh by (simp add: run_start_frame)
  have st: "stages_started W = [''collection'', ''processing'', ''storage'', ''alerts'']"
    using st4 w5 by (simp add: W w6_def run_finally_frame)
  have "db_calls w4 = db_calls w + 2"
    using fc fp fs fg by (simp add: run_start_frame)
  with fm(4) have dc: "db_calls w + 3 \<le> db_calls W"
    by (simp add: W w6_def run_finally_frame)
  have l5: "set (log w5) \<subseteq> set (log W)"
    using run_finally_frame(10) [of w6 env] by (auto simp: W w6_def)
  have "(ERROR, [T ''Alert generation failed: '', E e]) \<in> set (log w4)"
    using fg by simp
  with fm(6) l5 have lg1: "(ERROR, [T ''Alert generation failed: '', E e]) \<in> set (log W)"
    by blast
  from fm(5) l5 have lg2: "(INFO, [T ''STAGE 5: Recording Metrics'']) \<in> set (log W)"
    by blast
  have lg3: "(INFO, [T ''PIPELINE COMPLETED SUCCESSFULLY'']) \<in> set (log W)"
    using run_finally_frame(10) [of w6 env] by (auto simp: W w6_def)
  have sm: "summary_file W = Some (get_summary (metrics W))"
    using run_finalized(2) [of env cfg w] by (simp add: W_def)
  have rows:
    "suffix [PStr ''posts_collected'', PStr ''posts_processed'',
             PStr ''alerts_generated'', PStr ''execution_time'', PStr ''error_count'']
       (map first_column (tbl_pipeline_metrics (db W)))
     \<and> last (tbl_pipeline_metrics (db W)) = [PStr ''error_count'', PInt 1, Json (PDict [])]"
    if q: "\<forall>n. fault_plan env n = no_faults"
      "\<forall>v. row_error env ''pipeline_metrics'' v = None" "held w < maxconn"
  proof -
    have "held w4 < maxconn"
      using fc fp fs fg q(3) by (simp add: run_start_frame)
    from record_metrics_rows [OF q(1) this q(2)]
    have t: "tbl_pipeline_metrics (db w5) = tbl_pipeline_metrics (db w4) @
           [[PStr ''posts_collected'', PInt (posts_collected (metrics w4)), Json (PDict [])],
            [PStr ''posts_processed'', PInt (posts_processed (metrics w4)), Json (PDict [])],
            [PStr ''alerts_generated'', PInt (alerts_generated (metrics w4)), Json (PDict [])],
            [PStr ''execution_time'', PFloat (total_duration (metrics w4)), Json (PDict [])],
            [PStr ''error_count'', PInt (int (length (errors (metrics w4)))), Json (PDict [])]]"
      by (simp add: w5_def)
    from el4 have "length (error_log w4) = 1" by simp
    then have n: "length (errors (metrics w4)) = 1"
      by (simp add: error_log_def)
    have "db W = db w5"
      by (simp add: W w6_def run_finally_frame)
    with t n show ?thesis
      by (auto simp: suffix_def)
  qed
  from r el cnt st dc lg1 lg2 lg3 sm rows show ?thesis
    by (simp add: m W_def)
qed

section \<open>Runs in the example surroundings\<close>

lemmas init_eval_defs =
  started_def load_config_def pipeline_init_def pipeline_init_try_def init_before_db_def
  init_after_db_def config_item_def getsection_def getitem_def raised_def
  DatabaseHandler_init_def init_schema_def init_schema_try_def db_op_defs maxconn_def
  no_faults_def example_config_def

lemma started_quiet: "started quiet_env empty_world = Some (example_config, started_world)"
  by (simp add: init_eval_defs quiet_env_def empty_world_def started_world_def)

lemma collect_quiet:
  "fst (collect_data quiet_env example_config w) = Inr [example_post (PStr ''a1'') (PStr ''reddit'')]"
  by (simp add: collect_data_def collect_data_try_def getsection_def getitem_def dict_get_def
      example_config_def quiet_env_def Let_def split: prod.splits)

lemmas scenario_defs =
  quiet_env_def no_posts_env_def collector_down_env_def bad_post_env_def alerts_down_env_def
  plain_objects_env_def

lemma started_scenarios:
  "started quiet_env empty_world = Some (example_config, started_world)"
  "started no_posts_env empty_world = Some (example_config, started_world)"
  "started collector_down_env empty_world = Some (example_config, started_world)"
  "started bad_post_env empty_world = Some (example_config, started_world)"
  "started alerts_down_env empty_world = Some (example_config, started_world)"
  "started plain_objects_env empty_world = Some (example_config, started_world)"
  by (simp_all add: init_eval_defs scenario_defs empty_world_def started_world_def)

lemmas collect_eval_defs =
  collect_data_def collect_data_try_def getsection_def getitem_def dict_get_def
  example_config_def Let_def

lemma collect_scenarios:
  "fst (collect_data no_posts_env example_config w) = Inr []"
  "fst (collect_data collector_down_env example_config w) =
     Inl (Exc ''ConnectionError'' ''reddit unreachable'')"
  "fst (collect_data bad_post_env example_config w) = Inr [example_post (PStr ''a1'') PNone]"
  "fst (collect_data alerts_down_env example_config w) =
     Inr [example_post (PStr ''a1'') (PStr ''reddit'')]"
  "fst (collect_data plain_objects_env example_config w) =
     Inr [example_post (PStr ''a1'') (PStr ''reddit'')]"
  by (simp_all add: collect_eval_defs scenario_defs split: prod.splits)

lemma process_scenarios:
  "fst (process_data bad_post_env raw_posts w) = Inr [example_processed (PStr ''a1'') True]"
  "fst (process_data alerts_down_env raw_posts w) = Inr [example_processed (PStr ''a1'') True]"
  by (simp_all add: process_data_def process_data_guarded_def process_data_try_def
      comprehension_Inr getattr_def example_processed_def scenario_defs Let_def
      split: prod.splits)


lemmas store_eval_defs =
  store_data_def store_data_try_def insert_raw_posts_def insert_raw_posts_try_def
  insert_processed_posts_def insert_processed_posts_try_def execute_batch_def
  insert_raw_stmt_def insert_processed_stmt_def raw_post_values_def processed_post_values_def
  getitem_def getsection_def dict_get_def Json_of_def db_op_defs no_faults_def
  example_post_def example_processed_def example_config_def NotNullViolation_def
  start_stage_def stage_banner_def time_time_def Let_def

lemma store_bad_post:
  "held w < maxconn
   \<Longrightarrow> fst (store_data bad_post_env example_config [example_post (PStr ''a1'') PNone]
              [example_processed (PStr ''a1'') True] w) = Some (NotNullViolation ''platform'')"
  by (simp add: store_eval_defs scenario_defs split: prod.splits)

lemma store_alerts_down:
  "held w < maxconn
   \<Longrightarrow> fst (store_data alerts_down_env example_config [example_post (PStr ''a1'') (PStr ''reddit'')]
              [example_processed (PStr ''a1'') True] w) = None"
  by (simp add: store_eval_defs scenario_defs split: prod.splits)

lemma alerts_alerts_down:
  "fst (generate_alerts_caught alerts_down_env example_config processed_posts w) =
     Some (Exc ''SMTPException'' ''smtp unreachable'')"
  by (simp add: generate_alerts_caught_def generate_alerts_try_def getsection_def dict_get_def
      example_config_def scenario_defs Let_def split: prod.splits)

lemma outcome_no_posts: "run_outcome no_posts_env example_config w = NoPostsCollected"
  using collect_scenarios(1) [of "run_start no_posts_env w"]
  by (auto simp: run_outcome_def split: prod.splits sum.splits)

lemma outcome_collector_down:
  "run_outcome collector_down_env example_config w =
     CollectionFailed (Exc ''ConnectionError'' ''reddit unreachable'')"
  using collect_scenarios(2) [of "run_start collector_down_env w"]
  by (auto simp: run_outcome_def split: prod.splits sum.splits)


lemma outcome_bad_post:
  assumes "held w < maxconn"
  shows "run_outcome bad_post_env example_config w = StorageFailed (NotNullViolation ''platform'')"
proof -
  obtain r1 w1 where c: "collect_data bad_post_env example_config (run_start bad_post_env w) = (r1, w1)"
    by (cases "collect_data bad_post_env example_config (run_start bad_post_env w)")
  with collect_scenarios(3) [of "run_start bad_post_env w"]
  have r1: "r1 = Inr [example_post (PStr ''a1'') PNone]" by simp
  obtain r2 w2 where p: "process_data bad_post_env [example_post (PStr ''a1'') PNone] w1 = (r2, w2)"
    by (cases "process_data bad_post_env [example_post (PStr ''a1'') PNone] w1")
  with process_scenarios(1) [of "[example_post (PStr ''a1'') PNone]" w1]
  have r2: "r2 = Inr [example_processed (PStr ''a1'') True]" by simp
  from collect_data_frame [OF c] process_data_frame [OF p] assms
  have "held w2 < maxconn" by (simp add: run_start_frame)
  from store_bad_post [OF this] c p r1 r2 show ?thesis
    by (auto simp: run_outcome_def process_data_Inr split: prod.splits)
qed

lemma outcome_alerts_down:
  assumes "held w < maxconn"
  shows "run_outcome alerts_down_env example_config w =
           Completed (Some (Exc ''SMTPException'' ''smtp unreachable''))"
proof -
  obtain r1 w1 where
    c: "collect_data alerts_down_env example_config (run_start alerts_down_env w) = (r1, w1)"
    by (cases "collect_data alerts_down_env example_config (run_start alerts_down_env w)")
  with collect_scenarios(4) [of "run_start alerts_down_env w"]
  have r1: "r1 = Inr [example_post (PStr ''a1'') (PStr ''reddit'')]" by simp
  obtain r2 w2 where
    p: "process_data alerts_down_env [example_post (PStr ''a1'') (PStr ''reddit'')] w1 = (r2, w2)"
    by (cases "process_data alerts_down_env [example_post (PStr ''a1'') (PStr ''reddit'')] w1")
  with process_scenarios(2) [of "[example_post (PStr ''a1'') (PStr ''reddit'')]" w1]
  have r2: "r2 = Inr [example_processed (PStr ''a1'') True]" by simp
  from collect_data_frame [OF c] process_data_frame [OF p] assms
  have "held w2 < maxconn" by (simp add: run_start_frame)
  from store_alerts_down [OF this] c p r1 r2 show ?thesis
    by (auto simp: run_outcome_def process_data_Inr alerts_alerts_down split: prod.splits)
qed

lemma held_started_world: "held started_world < maxconn"
  by (simp add: started_world_def maxconn_def)

lemma started_world_fields:
  "db_calls started_world = 1"
  "metrics started_world = PipelineMetrics_init"
  "tbl_pipeline_metrics (db started_world) = []"
  "tbl_alerts (db started_world) = []"
  by (simp_all add: started_world_def)

theorem zero_posts_is_a_successful_noop_witness:
  "started no_posts_env empty_world = Some (example_config, started_world)
   \<and> run_outcome no_posts_env example_config started_world = NoPostsCollected
   \<and> fst (main no_posts_env empty_world) = 0
   \<and> s_posts_collected (get_summary (metrics (snd (main no_posts_env empty_world)))) = 0
   \<and> s_posts_processed (get_summary (metrics (snd (main no_posts_env empty_world)))) = 0
   \<and> stages_started (snd (main no_posts_env empty_world)) = [''collection'']
   \<and> db (snd (main no_posts_env empty_world)) = db started_world
   \<and> db_calls (snd (main no_posts_env empty_world)) = 1"
  using zero_posts_is_a_successful_noop [OF started_scenarios(2) outcome_no_posts]
  by (auto simp: started_scenarios outcome_no_posts started_world_fields)

theorem storage_failure_aborts_the_run_witness:
  "started bad_post_env empty_world = Some (example_config, started_world)
   \<and> run_outcome bad_post_env example_config started_world =
       StorageFailed (NotNullViolation ''platform'')
   \<and> fst (run bad_post_env example_config started_world) = Some (NotNullViolation ''platform'')
   \<and> fst (main bad_post_env empty_world) = 1
   \<and> error_log (snd (main bad_post_env empty_world)) =
       [(''storage'', ''platform''), (''pipeline'', ''platform'')]
   \<and> stages_started (snd (main bad_post_env empty_world)) =
       [''collection'', ''processing'', ''storage'']
   \<and> tbl_pipeline_metrics (db (snd (main bad_post_env empty_world))) = []"
  using storage_failure_aborts_the_run
    [OF started_scenarios(4), of "NotNullViolation ''platform''"]
  by (simp add: started_scenarios outcome_bad_post [OF held_started_world]
      NotNullViolation_def started_world_fields)

lemma alerts_down_env_store:
  "fault_plan alerts_down_env n = no_faults"
  "row_error alerts_down_env table v = None"
  by (simp_all add: alerts_down_env_def quiet_env_def)

theorem alert_failure_is_not_fatal_witness:
  "started alerts_down_env empty_world = Some (example_config, started_world)
   \<and> run_outcome alerts_down_env example_config started_world =
       Completed (Some (Exc ''SMTPException'' ''smtp unreachable''))
   \<and> fst (main alerts_down_env empty_world) = 0
   \<and> error_log (snd (main alerts_down_env empty_world)) = [(''alerts'', ''smtp unreachable'')]
   \<and> (INFO, [T ''STAGE 5: Recording Metrics'']) \<in> set (log (snd (main alerts_down_env empty_world)))
   \<and> 4 \<le> db_calls (snd (main alerts_down_env empty_world))
   \<and> last (tbl_pipeline_metrics (db (snd (main alerts_down_env empty_world)))) =
       [PStr ''error_count'', PInt 1, Json (PDict [])]"
  using alert_failure_is_not_fatal
    [OF started_scenarios(5) outcome_alerts_down [OF held_started_world]]
  by (auto simp: started_scenarios outcome_alerts_down [OF held_started_world]
      started_world_fields held_started_world alerts_down_env_store)

subsection \<open>A failed collection, step by step\<close>

lemmas run_eval_defs =
  run_def run_start_def run_try_def run_except_def run_finally_def print_summary_def
  time_time_def start_stage_def end_stage_def add_error_def stage_banner_def logger_def
  started_world_def PipelineMetrics_init_def

lemma collector_down_run:
  "metrics (snd (run collector_down_env example_config started_world)) =
     \<lparr>start_time = Some 1000, end_time = Some 1005, posts_collected = 0,
       posts_processed = 0, posts_stored = 0, alerts_generated = 0,
       errors =
         [\<lparr>e_stage = ''collection'', e_error = ''reddit unreachable'', e_timestamp = 1002\<rparr>,
          \<lparr>e_stage = ''pipeline'', e_error = ''reddit unreachable'', e_timestamp = 1004\<rparr>],
       stage_durations =
         [(''collection'', \<lparr>t_start = 1001, t_end = Some 1003, t_duration = Some 2\<rparr>)]\<rparr>"
  "ticks (snd (run collector_down_env example_config started_world)) = 6"
  "ticks started_world = 0"
  "clock collector_down_env n = 1000 + real n"
  by (simp_all add: run_eval_defs collect_eval_defs scenario_defs)

theorem finalization_always_runs_witness:
  "(let W = snd (run collector_down_env example_config started_world) in
      start_time (metrics W) = Some 1000
    \<and> end_time (metrics W) = Some 1005
    \<and> summary_file W =
        Some \<lparr>s_execution_time = 5, s_start_time = Some 1000, s_end_time = Some 1005,
              s_posts_collected = 0, s_posts_processed = 0, s_posts_stored = 0,
              s_alerts_generated = 0, s_error_count = 2,
              s_errors =
                [\<lparr>e_stage = ''collection'', e_error = ''reddit unreachable'',
                   e_timestamp = 1002\<rparr>,
                 \<lparr>e_stage = ''pipeline'', e_error = ''reddit unreachable'',
                   e_timestamp = 1004\<rparr>],
              s_stage_durations = [(''collection'', 2)]\<rparr>
    \<and> suffix
        [(INFO, [T ''===='']),
         (INFO, [T ''PIPELINE EXECUTION SUMMARY'']),
         (INFO, [T ''===='']),
         (INFO, [T ''Total Execution Time: '', R 5, T '' seconds'']),
         (INFO, [T ''Posts Collected: '', I 0]),
         (INFO, [T ''Posts Processed: '', I 0]),
         (INFO, [T ''Posts Stored: '', I 0]),
         (INFO, [T ''Alerts Generated: '', I 0]),
         (INFO, [T ''Errors: '', I 2]),
         (INFO, [T ''Stage Durations:'']),
         (INFO, [T ''  '', T ''collection'', T '': '', R 2, T ''s'']),
         (INFO, [T ''Errors:'']),
         (INFO, [T ''  ['', T ''collection'', T ''] '', T ''reddit unreachable'']),
         (INFO, [T ''  ['', T ''pipeline'', T ''] '', T ''reddit unreachable'']),
         (INFO, [T ''====''])]
        (log W))"
  using finalization_always_runs [of collector_down_env example_config started_world]
  by (simp add: Let_def collector_down_run)

lemma collector_down_recorded_twice:
  "handled_stage (run_outcome collector_down_env example_config started_world) =
     Some (''collection'', Exc ''ConnectionError'' ''reddit unreachable'')
   \<and> error_log (snd (run collector_down_env example_config started_world)) =
       [(''collection'', ''reddit unreachable''), (''pipeline'', ''reddit unreachable'')]
   \<and> s_error_count (get_summary (metrics (snd (run collector_down_env example_config
         started_world)))) = 2"
  using handled_failure_is_recorded_twice
    [of collector_down_env example_config started_world "''collection''"
        "Exc ''ConnectionError'' ''reddit unreachable''"]
  by (simp add: outcome_collector_down started_world_fields PipelineMetrics_init_def
      error_log_def [of started_world])

subsection \<open>A failed conversion of the processed posts\<close>


end
